theory Spec2Isabelle
  imports Complex_Main "HOL-Library.Multiset"
begin

section \<open>Tensors and the dataset adapter\<close>

text \<open>
  The notebook's only class is
  \<^verbatim>\<open>
  class SegmentationDataset(Dataset):
      def __init__(self, hf_ds, processor):
          self.ds = hf_ds
          self.processor = processor
      def __len__(self):
          return len(self.ds)
      def __getitem__(self, idx):
          item = self.ds[idx]
          image = Image.fromarray(item['image'])
          mask = Image.fromarray(item['segmentation_mask'])
          encoded = self.processor(image, mask, return_tensors="pt")
          return {k: v.squeeze() for k, v in encoded.items()}
  \<close>
  A tensor is its shape together with its elements in row-major order. The elements
  are kept at an arbitrary type: nothing below computes with them.
\<close>

datatype py_error = IndexError | ValueError

record 'a tensor =
  shape :: "nat list"
  elems :: "'a list"

text \<open>
  \<^verbatim>\<open>v.squeeze()\<close> is called with no \<^verbatim>\<open>dim\<close> argument: the result keeps the
  elements and drops every dimension of size 1 from the shape, wherever it stands.
\<close>

definition squeeze :: "'a tensor \<Rightarrow> 'a tensor" where
  "squeeze v = v\<lparr>shape := filter (\<lambda>d. d \<noteq> 1) (shape v)\<rparr>"

record 'arr raw_item =
  image :: 'arr
  segmentation_mask :: 'arr

text \<open>
  The adapter's two fields. The processor is the externally supplied encoder: given the
  image and the mask it returns a mapping from field names to tensors.
\<close>

record ('arr, 'pil, 'a) SegmentationDataset =
  ds :: "'arr raw_item list"
  processor :: "'pil \<Rightarrow> 'pil \<Rightarrow> (string \<rightharpoonup> 'a tensor)"

definition len_dataset :: "('arr, 'pil, 'a) SegmentationDataset \<Rightarrow> nat" where
  "len_dataset self = length (ds self)"

text \<open>
  \<^verbatim>\<open>self.ds[idx]\<close> with an integer: a negative index counts from the end, and an
  index outside \<open>[-len, len)\<close> raises IndexError.
\<close>

definition ds_getitem :: "'x list \<Rightarrow> int \<Rightarrow> py_error + 'x" where
  "ds_getitem xs idx =
     (let n = int (length xs); j = (if idx < 0 then n + idx else idx)
      in if 0 \<le> j \<and> j < n then Inr (xs ! nat j) else Inl IndexError)"

text \<open>
  \<open>fromarray\<close> stands for \<^verbatim>\<open>Image.fromarray\<close>, the conversion of the stored array to
  an image object; it is a parameter, like the processor.
\<close>

definition getitem ::
  "('arr \<Rightarrow> 'pil) \<Rightarrow> ('arr, 'pil, 'a) SegmentationDataset \<Rightarrow> int
     \<Rightarrow> py_error + (string \<rightharpoonup> 'a tensor)" where
  "getitem fromarray self idx =
     (case ds_getitem (ds self) idx of
        Inl e \<Rightarrow> Inl e
      | Inr item \<Rightarrow>
          (let img = fromarray (image item);
               msk = fromarray (segmentation_mask item);
               encoded = processor self img msk
           in Inr (\<lambda>k. map_option squeeze (encoded k))))"

text \<open>
  Two helpers to state properties of \<open>getitem\<close>: the encoder's output for the sample
  at position \<open>i\<close> (the value of \<^verbatim>\<open>encoded\<close> in the source), and the shape of one
  field of a result (\<open>None\<close> when the call raised or the field is absent).
\<close>

definition encoded_sample ::
  "('arr \<Rightarrow> 'pil) \<Rightarrow> ('arr, 'pil, 'a) SegmentationDataset \<Rightarrow> nat \<Rightarrow> (string \<rightharpoonup> 'a tensor)" where
  "encoded_sample fromarray self i =
     processor self (fromarray (image (ds self ! i)))
                    (fromarray (segmentation_mask (ds self ! i)))"

definition field_shape :: "py_error + (string \<rightharpoonup> 'a tensor) \<Rightarrow> string \<Rightarrow> nat list option" where
  "field_shape r k = (case r of Inl e \<Rightarrow> None | Inr m \<Rightarrow> map_option shape (m k))"

text \<open>A fixed adapter with two samples, used to evaluate the definitions.\<close>

definition demo_processor :: "nat list \<Rightarrow> nat list \<Rightarrow> (string \<rightharpoonup> nat tensor)" where
  "demo_processor img msk =
     [''pixel_values'' \<mapsto> \<lparr>shape = [1, 1, 2, 2], elems = img\<rparr>,
      ''labels'' \<mapsto> \<lparr>shape = [1, 2, 2], elems = msk\<rparr>]"

definition demo_dataset :: "(nat list, nat list, nat) SegmentationDataset" where
  "demo_dataset =
     \<lparr>ds = [\<lparr>image = [1, 2, 3, 4], segmentation_mask = [0, 0, 1, 255]\<rparr>,
            \<lparr>image = [5, 6, 7, 8], segmentation_mask = [2, 2, 2, 2]\<rparr>],
      processor = demo_processor\<rparr>"

section \<open>The batch loader\<close>

text \<open>
  The notebook builds its two loaders with
  \<^verbatim>\<open>
  train_loader = DataLoader(SegmentationDataset(train_ds, processor), batch_size=4, shuffle=True)
  val_loader = DataLoader(SegmentationDataset(val_ds, processor), batch_size=2)
  \<close>
  The loader's iteration is library code; the four definitions that follow the record
  give it as the spec describes it.
\<close>

record ('arr, 'pil, 'a) DataLoader =
  dataset :: "('arr, 'pil, 'a) SegmentationDataset"
  batch_size :: nat
  shuffle :: bool

text \<open>
  Modelled from the spec: the Batch Loader's grouping, missing from the sources. Samples
  are grouped into consecutive chunks of the configured size \<open>B\<close>; the final chunk may
  be smaller. A batch size of 0 is outside the loader's configuration (a positive
  integer); the guard only makes the recursion total.
\<close>

function chunks :: "nat \<Rightarrow> 'x list \<Rightarrow> 'x list list" where
  "chunks B xs = (if B = 0 \<or> xs = [] then [] else take B xs # chunks B (drop B xs))"
  by pat_completeness auto
termination
  by (relation "measure (\<lambda>(B, xs). length xs)") auto

declare chunks.simps [simp del]

text \<open>
  Modelled from the spec: the Batch Loader's sampler, missing from the sources. When
  shuffle is enabled the iteration order over sample indices is a fresh random
  permutation each time iteration begins; when disabled the indices are visited in
  original order. The random draw is the argument \<open>perm\<close>, the permutation produced
  when this iteration begins; it is read only when shuffle is enabled.
\<close>

definition index_order :: "('arr, 'pil, 'a) DataLoader \<Rightarrow> nat list \<Rightarrow> nat list" where
  "index_order ld perm = (if shuffle ld then perm else [0..<len_dataset (dataset ld)])"

text \<open>
  Modelled from the spec: the Batch Loader's iteration, missing from the sources: the
  index batches of one full pass, the chunks of the order visited.
\<close>

definition iter_batches :: "('arr, 'pil, 'a) DataLoader \<Rightarrow> nat list \<Rightarrow> nat list list" where
  "iter_batches ld perm = chunks (batch_size ld) (index_order ld perm)"

text \<open>
  Modelled from the spec: the Batch Loader's \<^verbatim>\<open>len\<close>, missing from the sources:
  the number of batches per pass, \<open>ceil(L / B)\<close>, in integer arithmetic.
\<close>

definition len_loader :: "('arr, 'pil, 'a) DataLoader \<Rightarrow> nat" where
  "len_loader ld = (len_dataset (dataset ld) + batch_size ld - 1) div batch_size ld"

text \<open>A dataset of \<open>n\<close> one-pixel samples and a loader over ten of them.\<close>

definition sized_dataset :: "nat \<Rightarrow> (nat list, nat list, nat) SegmentationDataset" where
  "sized_dataset n =
     \<lparr>ds = map (\<lambda>i. \<lparr>image = [i], segmentation_mask = [i]\<rparr>) [0..<n],
      processor = demo_processor\<rparr>"

definition demo_loader :: "bool \<Rightarrow> (nat list, nat list, nat) DataLoader" where
  "demo_loader sh = \<lparr>dataset = sized_dataset 10, batch_size = 4, shuffle = sh\<rparr>"

section \<open>Optimizer, schedule, model and metric\<close>

text \<open>
  \<^verbatim>\<open>
  optimizer = AdamW(model.parameters(), lr=5e-5)
  num_epochs = 5
  num_steps = num_epochs * len(train_loader)
  lr_scheduler = get_scheduler("linear", optimizer=optimizer, num_warmup_steps=0,
                               num_training_steps=num_steps)
  \<close>
  Rates are exact rationals.
\<close>

text \<open>
  Modelled from the spec: the formula of the linear schedule, missing from the sources.
  The rate decays linearly from the configured peak rate to zero over the total step
  count, after a linear ramp over the warm-up steps (none here). \<open>lr_lambda\<close> is the
  factor applied to the peak rate once the scheduler has been advanced \<open>t\<close> times.
\<close>

definition lr_lambda :: "nat \<Rightarrow> nat \<Rightarrow> nat \<Rightarrow> rat" where
  "lr_lambda num_warmup_steps num_training_steps t =
     (if t < num_warmup_steps then of_nat t / of_nat (max 1 num_warmup_steps)
      else max 0 (of_int (int num_training_steps - int t)
                    / of_nat (max 1 (num_training_steps - num_warmup_steps))))"

record lr_scheduler =
  base_lr :: rat
  num_warmup_steps :: nat
  num_training_steps :: nat
  last_epoch :: nat

text \<open>
  The state a run works on. \<open>weights\<close> are the model's learnable weights and
  \<open>grads\<close> their accumulated gradient (\<open>None\<close> when cleared); \<open>lr\<close> is the rate held by
  the optimizer, which the scheduler rewrites; \<open>console\<close> is what has been printed
  and \<open>saved\<close> the artifacts persisted (checkpoints, exports, reports), by name. The
  console and the saved artifacts are what a run leaves for an outside observer.
  The last two fields are histories kept for the statements below, on which no other
  field depends: the accumulated gradient each \<^verbatim>\<open>loss.backward()\<close> found on entry,
  and the rate each \<^verbatim>\<open>optimizer.step()\<close> used.
\<close>

record ('w, 'g, 'o, 'p, 'l) run_state =
  weights :: 'w
  grads :: "'g option"
  opt_state :: 'o
  lr :: rat
  sched :: lr_scheduler
  training :: bool
  metric_acc :: "('p \<times> 'l) list"
  console :: "string list"
  saved :: "string list"
  backward_seen :: "'g option list"
  lr_used :: "rat list"

text \<open>
  The external collaborators, as parameters: the gradient of \<^verbatim>\<open>model(**batch).loss\<close>
  with respect to the weights, the addition that accumulates gradients, the AdamW update,
  \<^verbatim>\<open>model(**batch).logits.argmax(dim=1)\<close>, \<^verbatim>\<open>batch["labels"]\<close>, the metric's
  \<^verbatim>\<open>compute\<close> (accumulated pairs, class count, ignore index, reduce-labels flag),
  \<^verbatim>\<open>model.config.num_labels\<close>, and the fetching and stacking of the samples of an
  index batch through each loader's adapter. The forward pass reads the weights and the
  mode flag; the random draws of dropout are not modelled. Moving a batch to the compute
  device (\<^verbatim>\<open>v.to(device)\<close>) keeps its values and is left out.
\<close>

record ('w, 'g, 'o, 'b, 'p, 'l) collaborators =
  loss_grad :: "'w \<Rightarrow> bool \<Rightarrow> 'b \<Rightarrow> 'g"
  grad_add :: "'g \<Rightarrow> 'g \<Rightarrow> 'g"
  adamw_step :: "rat \<Rightarrow> 'o \<Rightarrow> 'w \<Rightarrow> 'g option \<Rightarrow> 'o \<times> 'w"
  logits_argmax :: "'w \<Rightarrow> bool \<Rightarrow> 'b \<Rightarrow> 'p"
  batch_labels :: "'b \<Rightarrow> 'l"
  mean_iou :: "('p \<times> 'l) list \<Rightarrow> nat \<Rightarrow> nat \<Rightarrow> bool \<Rightarrow> rat"
  num_labels :: nat
  load_train :: "nat list \<Rightarrow> 'b"
  load_val :: "nat list \<Rightarrow> 'b"

text \<open>
  The rate the scheduler gives at its current step count, and \<^verbatim>\<open>get_scheduler\<close>,
  which builds the scheduler at step 0 around the optimizer's rate and sets the
  optimizer's rate to the schedule's first value.
\<close>

definition get_lr :: "lr_scheduler \<Rightarrow> rat" where
  "get_lr sc =
     base_lr sc * lr_lambda (num_warmup_steps sc) (num_training_steps sc) (last_epoch sc)"

definition get_scheduler ::
  "nat \<Rightarrow> nat \<Rightarrow> ('w, 'g, 'o, 'p, 'l) run_state \<Rightarrow> ('w, 'g, 'o, 'p, 'l) run_state" where
  "get_scheduler n_warmup n_training s =
     (let sc = \<lparr>base_lr = lr s, num_warmup_steps = n_warmup,
                 num_training_steps = n_training, last_epoch = 0\<rparr>
      in s\<lparr>sched := sc, lr := get_lr sc\<rparr>)"

section \<open>The training loop\<close>

text \<open>
  \<^verbatim>\<open>
  for batch in train_loader:
      batch = {k: v.to(device) for k, v in batch.items()}
      outputs = model(**batch)
      loss = outputs.loss
      loss.backward()
      optimizer.step()
      lr_scheduler.step()
      optimizer.zero_grad()
  \<close>
\<close>

definition loss_backward ::
  "('w, 'g, 'o, 'b, 'p, 'l) collaborators \<Rightarrow> 'b
     \<Rightarrow> ('w, 'g, 'o, 'p, 'l) run_state \<Rightarrow> ('w, 'g, 'o, 'p, 'l) run_state" where
  "loss_backward ext batch s =
     (let g = loss_grad ext (weights s) (training s) batch
      in s\<lparr>grads := (case grads s of None \<Rightarrow> Some g | Some a \<Rightarrow> Some (grad_add ext a g)),
           backward_seen := backward_seen s @ [grads s]\<rparr>)"

definition optimizer_step ::
  "('w, 'g, 'o, 'b, 'p, 'l) collaborators
     \<Rightarrow> ('w, 'g, 'o, 'p, 'l) run_state \<Rightarrow> ('w, 'g, 'o, 'p, 'l) run_state" where
  "optimizer_step ext s =
     (let (o', w') = adamw_step ext (lr s) (opt_state s) (weights s) (grads s)
      in s\<lparr>opt_state := o', weights := w', lr_used := lr_used s @ [lr s]\<rparr>)"

definition lr_scheduler_step ::
  "('w, 'g, 'o, 'p, 'l) run_state \<Rightarrow> ('w, 'g, 'o, 'p, 'l) run_state" where
  "lr_scheduler_step s =
     (let sc = (sched s)\<lparr>last_epoch := Suc (last_epoch (sched s))\<rparr>
      in s\<lparr>sched := sc, lr := get_lr sc\<rparr>)"

definition zero_grad :: "('w, 'g, 'o, 'p, 'l) run_state \<Rightarrow> ('w, 'g, 'o, 'p, 'l) run_state" where
  "zero_grad s = s\<lparr>grads := None\<rparr>"

definition train_step ::
  "('w, 'g, 'o, 'b, 'p, 'l) collaborators \<Rightarrow> ('w, 'g, 'o, 'p, 'l) run_state \<Rightarrow> 'b
     \<Rightarrow> ('w, 'g, 'o, 'p, 'l) run_state" where
  "train_step ext s batch =
     zero_grad (lr_scheduler_step (optimizer_step ext (loss_backward ext batch s)))"

fun train_loop ::
  "('w, 'g, 'o, 'b, 'p, 'l) collaborators \<Rightarrow> ('w, 'g, 'o, 'p, 'l) run_state \<Rightarrow> 'b list
     \<Rightarrow> ('w, 'g, 'o, 'p, 'l) run_state" where
  "train_loop ext s [] = s"
| "train_loop ext s (batch # rest) = train_loop ext (train_step ext s batch) rest"

section \<open>The validation loop\<close>

text \<open>
  \<^verbatim>\<open>
  model.eval()
  metric.reset()
  for batch in val_loader:
      batch = {k: v.to(device) for k, v in batch.items()}
      with torch.no_grad():
          outputs = model(**batch)
      preds = outputs.logits.argmax(dim=1).cpu().numpy()
      labels = batch["labels"].cpu().numpy()
      metric.add_batch(predictions=preds, references=labels)
  results = metric.compute(num_labels=model.config.num_labels, ignore_index=255,
                           reduce_labels=False)
  \<close>
\<close>

definition val_step ::
  "('w, 'g, 'o, 'b, 'p, 'l) collaborators \<Rightarrow> ('w, 'g, 'o, 'p, 'l) run_state \<Rightarrow> 'b
     \<Rightarrow> ('w, 'g, 'o, 'p, 'l) run_state" where
  "val_step ext s batch =
     (let preds = logits_argmax ext (weights s) (training s) batch;
          labels = batch_labels ext batch
      in s\<lparr>metric_acc := metric_acc s @ [(preds, labels)]\<rparr>)"

fun val_loop ::
  "('w, 'g, 'o, 'b, 'p, 'l) collaborators \<Rightarrow> ('w, 'g, 'o, 'p, 'l) run_state \<Rightarrow> 'b list
     \<Rightarrow> ('w, 'g, 'o, 'p, 'l) run_state" where
  "val_loop ext s [] = s"
| "val_loop ext s (batch # rest) = val_loop ext (val_step ext s batch) rest"

definition validation_pass ::
  "('w, 'g, 'o, 'b, 'p, 'l) collaborators \<Rightarrow> ('w, 'g, 'o, 'p, 'l) run_state \<Rightarrow> 'b list
     \<Rightarrow> ('w, 'g, 'o, 'p, 'l) run_state \<times> rat" where
  "validation_pass ext s val_batches =
     (let s1 = s\<lparr>training := False\<rparr>;
          s2 = s1\<lparr>metric_acc := []\<rparr>;
          s3 = val_loop ext s2 val_batches;
          results = mean_iou ext (metric_acc s3) (num_labels ext) 255 False
      in (s3, results))"

section \<open>The driver\<close>

text \<open>
  \<^verbatim>\<open>
  dataset = load_dataset("scene_parse_150")
  train_ds = dataset["train"].shuffle(seed=42).select(range(100))  # subset for demo
  val_ds = dataset["validation"].select(range(50))
  \<close>
  \<open>select\<close> returns an empty dataset as it is, whatever the indices; on a dataset
  with samples it raises IndexError when an index is not below the dataset's length. The
  seeded shuffle of the dataset library is the parameter \<open>hf_shuffle\<close>.
\<close>

record 'x dataset_dict =
  train :: "'x list"
  validation :: "'x list"

definition select :: "nat list \<Rightarrow> 'x list \<Rightarrow> py_error + 'x list" where
  "select indices xs =
     (if xs = [] then Inr xs
      else if list_all (\<lambda>i. i < length xs) indices then Inr (map (\<lambda>i. xs ! i) indices)
      else Inl IndexError)"

definition prepare_data ::
  "(nat \<Rightarrow> 'x list \<Rightarrow> 'x list) \<Rightarrow> 'x dataset_dict \<Rightarrow> py_error + ('x list \<times> 'x list)" where
  "prepare_data hf_shuffle d =
     (case select [0..<100] (hf_shuffle 42 (train d)) of
        Inl e \<Rightarrow> Inl e
      | Inr train_ds \<Rightarrow>
          (case select [0..<50] (validation d) of
             Inl e \<Rightarrow> Inl e
           | Inr val_ds \<Rightarrow> Inr (train_ds, val_ds)))"

definition train_loader ::
  "('pil \<Rightarrow> 'pil \<Rightarrow> (string \<rightharpoonup> 'a tensor)) \<Rightarrow> 'arr raw_item list
     \<Rightarrow> ('arr, 'pil, 'a) DataLoader" where
  "train_loader proc train_ds =
     \<lparr>dataset = \<lparr>ds = train_ds, processor = proc\<rparr>, batch_size = 4, shuffle = True\<rparr>"

definition val_loader ::
  "('pil \<Rightarrow> 'pil \<Rightarrow> (string \<rightharpoonup> 'a tensor)) \<Rightarrow> 'arr raw_item list
     \<Rightarrow> ('arr, 'pil, 'a) DataLoader" where
  "val_loader proc val_ds =
     \<lparr>dataset = \<lparr>ds = val_ds, processor = proc\<rparr>, batch_size = 2, shuffle = False\<rparr>"

text \<open>
  \<^verbatim>\<open>
  model = SegformerForSemanticSegmentation.from_pretrained(checkpoint)
  model.train()
  optimizer = AdamW(model.parameters(), lr=5e-5)
  metric = evaluate.load("mean_iou")
  \<close>
  The state once the model is loaded (weights \<open>w0\<close>) and put in training mode, the
  optimizer is built (state \<open>o0\<close>) with its rate and the metric is loaded: no gradient
  yet, nothing accumulated, nothing printed, nothing saved. Until a scheduler is attached,
  the scheduler field holds the optimizer's rate with no steps. \<open>initial_state\<close> is the state after
  the scheduler is attached as well, the rate being 5e-5.
\<close>

definition loaded_state :: "'w \<Rightarrow> 'o \<Rightarrow> rat \<Rightarrow> ('w, 'g, 'o, 'p, 'l) run_state" where
  "loaded_state w0 o0 rate =
     \<lparr>weights = w0, grads = None, opt_state = o0, lr = rate,
      sched = \<lparr>base_lr = rate, num_warmup_steps = 0, num_training_steps = 0, last_epoch = 0\<rparr>,
      training = True, metric_acc = [], console = [], saved = [],
      backward_seen = [], lr_used = []\<rparr>"

definition num_epochs :: nat where
  "num_epochs = 5"

definition num_steps :: "('arr, 'pil, 'a) DataLoader \<Rightarrow> nat" where
  "num_steps t_loader = num_epochs * len_loader t_loader"

definition initial_state ::
  "('arr, 'pil, 'a) DataLoader \<Rightarrow> 'w \<Rightarrow> 'o \<Rightarrow> ('w, 'g, 'o, 'p, 'l) run_state" where
  "initial_state t_loader w0 o0 =
     get_scheduler 0 (num_steps t_loader) (loaded_state w0 o0 (5 / 100000))"

text \<open>
  \<^verbatim>\<open>print(f"Epoch {epoch+1}/{num_epochs} \<dots> mIoU: {results['mean_iou']:.4f}")\<close>,
  where the dots stand for an em dash, three bytes in UTF-8. The console is modelled as
  the bytes written. \<open>fmt4\<close> is the format \<^verbatim>\<open>.4f\<close> of a finite value: the exact
  value rounded to four decimals, ties to even.
\<close>

definition digit_char :: "nat \<Rightarrow> char" where
  "digit_char d = ''0123456789'' ! (d mod 10)"

function show_nat :: "nat \<Rightarrow> string" where
  "show_nat n = (if n < 10 then [digit_char n] else show_nat (n div 10) @ [digit_char (n mod 10)])"
  by pat_completeness auto
termination
  by (relation "measure (\<lambda>n. n)") auto

declare show_nat.simps [simp del]

definition round_half_even :: "rat \<Rightarrow> int" where
  "round_half_even x =
     (let f = \<lfloor>x\<rfloor>; d = x - of_int f
      in if d < 1 / 2 then f else if 1 / 2 < d then f + 1 else if even f then f else f + 1)"

definition fmt4 :: "rat \<Rightarrow> string" where
  "fmt4 v =
     (let n = nat (round_half_even (\<bar>v\<bar> * 10000)); m = n mod 10000
      in (if v < 0 then [CHR ''-''] else []) @ show_nat (n div 10000) @ [CHR ''.'']
           @ [digit_char (m div 1000), digit_char (m div 100), digit_char (m div 10),
              digit_char m])"

definition em_dash :: string where
  "em_dash = [CHR 0xE2, CHR 0x80, CHR 0x94]"

definition line_prefix :: "nat \<Rightarrow> nat \<Rightarrow> string" where
  "line_prefix k n = ''Epoch '' @ show_nat k @ ''/'' @ show_nat n @ '' '' @ em_dash @ '' mIoU: ''"

definition epoch_line :: "nat \<Rightarrow> nat \<Rightarrow> rat \<Rightarrow> string" where
  "epoch_line k n v = line_prefix k n @ fmt4 v"

text \<open>
  \<^verbatim>\<open>
  for epoch in range(num_epochs):
      model.train()
      <training loop>
      <validation loop>
      print(...)
  \<close>
  \<open>perm\<close> is the order the training loader's sampler draws for this epoch; the
  validation loader does not shuffle and draws nothing.
\<close>

definition epoch_body ::
  "('w, 'g, 'o, 'b, 'p, 'l) collaborators \<Rightarrow> ('arr, 'pil, 'a) DataLoader
     \<Rightarrow> ('arr, 'pil, 'a) DataLoader \<Rightarrow> nat list \<Rightarrow> ('w, 'g, 'o, 'p, 'l) run_state \<Rightarrow> nat
     \<Rightarrow> ('w, 'g, 'o, 'p, 'l) run_state" where
  "epoch_body ext t_loader v_loader perm s epoch =
     (let s1 = s\<lparr>training := True\<rparr>;
          s2 = train_loop ext s1 (map (load_train ext) (iter_batches t_loader perm));
          (s3, results) = validation_pass ext s2 (map (load_val ext) (iter_batches v_loader []))
      in s3\<lparr>console := console s3 @ [epoch_line (epoch + 1) num_epochs results]\<rparr>)"

fun run_epochs ::
  "('w, 'g, 'o, 'b, 'p, 'l) collaborators \<Rightarrow> ('arr, 'pil, 'a) DataLoader
     \<Rightarrow> ('arr, 'pil, 'a) DataLoader \<Rightarrow> (nat \<Rightarrow> nat list) \<Rightarrow> ('w, 'g, 'o, 'p, 'l) run_state
     \<Rightarrow> nat list \<Rightarrow> ('w, 'g, 'o, 'p, 'l) run_state" where
  "run_epochs ext t_loader v_loader perms s [] = s"
| "run_epochs ext t_loader v_loader perms s (epoch # rest) =
     run_epochs ext t_loader v_loader perms
       (epoch_body ext t_loader v_loader (perms epoch) s epoch) rest"

definition run ::
  "('w, 'g, 'o, 'b, 'p, 'l) collaborators \<Rightarrow> ('arr, 'pil, 'a) DataLoader
     \<Rightarrow> ('arr, 'pil, 'a) DataLoader \<Rightarrow> (nat \<Rightarrow> nat list) \<Rightarrow> 'w \<Rightarrow> 'o
     \<Rightarrow> ('w, 'g, 'o, 'p, 'l) run_state" where
  "run ext t_loader v_loader perms w0 o0 =
     run_epochs ext t_loader v_loader perms (initial_state t_loader w0 o0) [0..<num_epochs]"

definition driver ::
  "('w, 'g, 'o, 'b, 'p, 'l) collaborators \<Rightarrow> (nat \<Rightarrow> 'arr raw_item list \<Rightarrow> 'arr raw_item list)
     \<Rightarrow> ('pil \<Rightarrow> 'pil \<Rightarrow> (string \<rightharpoonup> 'a tensor)) \<Rightarrow> 'arr raw_item dataset_dict
     \<Rightarrow> (nat \<Rightarrow> nat list) \<Rightarrow> 'w \<Rightarrow> 'o \<Rightarrow> py_error + ('w, 'g, 'o, 'p, 'l) run_state" where
  "driver ext hf_shuffle proc d perms w0 o0 =
     (case prepare_data hf_shuffle d of
        Inl e \<Rightarrow> Inl e
      | Inr (train_ds, val_ds) \<Rightarrow>
          Inr (run ext (train_loader proc train_ds) (val_loader proc val_ds) perms w0 o0))"

text \<open>
  The number of training batches, hence of optimizer steps, that the epochs \<open>es\<close>
  go through, given the order drawn for each.
\<close>

definition steps_in :: "('arr, 'pil, 'a) DataLoader \<Rightarrow> (nat \<Rightarrow> nat list) \<Rightarrow> nat list \<Rightarrow> nat" where
  "steps_in t_loader perms es = sum_list (map (\<lambda>e. length (iter_batches t_loader (perms e))) es)"

text \<open>
  The pattern of claim C7, as a test on a line: the prefix for epoch \<open>k\<close> of 5, then
  \<open>0.\<close> and exactly four decimal digits.
\<close>

definition is_digit :: "char \<Rightarrow> bool" where
  "is_digit c = (c \<in> set ''0123456789'')"

definition matches_pattern :: "nat \<Rightarrow> string \<Rightarrow> bool" where
  "matches_pattern k line =
     (let p = line_prefix k 5; r = drop (length p) line
      in take (length p) line = p \<and> length r = 6 \<and> take 2 r = ''0.''
         \<and> list_all is_digit (drop 2 r))"

text \<open>
  Sample collaborators over numbers, to evaluate a run: a batch is its index list,
  the gradient is the weight plus the batch's sum, the update adds the gradient to the
  weight and counts its calls, the model predicts every label right, and the metric
  gives \<open>v\<close> when every prediction equals its reference and 0 otherwise.
\<close>

definition demo_ext :: "rat \<Rightarrow> (nat, nat, nat, nat list, nat list, nat list) collaborators" where
  "demo_ext v =
     \<lparr>loss_grad = (\<lambda>w m b. w + sum_list b),
      grad_add = (\<lambda>a g. a + g),
      adamw_step = (\<lambda>rate st w g. (Suc st, w + (case g of None \<Rightarrow> 0 | Some x \<Rightarrow> x))),
      logits_argmax = (\<lambda>w m b. b),
      batch_labels = (\<lambda>b. b),
      mean_iou = (\<lambda>acc n ignore_index reduce_labels.
                    if list_all (\<lambda>(p, l). p = l) acc then v else 0),
      num_labels = 150,
      load_train = (\<lambda>idxs. idxs),
      load_val = (\<lambda>idxs. idxs)\<rparr>"

definition demo_perms :: "nat \<Rightarrow> nat list" where
  "demo_perms e = rev [0..<100]"

text \<open>
  What a printed line is for a metric value \<open>v\<close> in \<open>[0, 1]\<close>: it matches the pattern
  when \<open>v\<close> is below 0.99995, and reads \<open>1.0000\<close> after the prefix otherwise.
\<close>

definition printed_line_ok :: "nat \<Rightarrow> rat \<Rightarrow> bool" where
  "printed_line_ok k v =
     (0 \<le> v \<and> v \<le> 1
      \<and> (if v < 99995 / 100000 then matches_pattern k (epoch_line k 5 v)
         else epoch_line k 5 v = line_prefix k 5 @ ''1.0000''))"

definition demo_shuffle :: "nat \<Rightarrow> 'x list \<Rightarrow> 'x list" where
  "demo_shuffle seed xs = rev xs"

definition demo_dict :: "nat list raw_item dataset_dict" where
  "demo_dict =
     \<lparr>train = map (\<lambda>i. \<lparr>image = [i], segmentation_mask = [i]\<rparr>) [0..<120],
      validation = map (\<lambda>i. \<lparr>image = [i], segmentation_mask = [i]\<rparr>) [0..<60]\<rparr>"

section \<open>The metric, as the spec describes it\<close>

text \<open>
  The metric is library code, a parameter of the run (\<open>mean_iou\<close> above). To state
  what the printed values are, the definitions below give the value the spec describes.
  A prediction grid and its reference grid are lists of class indices of the same size,
  paired pixel by pixel.
\<close>

text \<open>
  Modelled from the spec: the pixels the metric counts, missing from the sources. The
  accumulator holds (prediction, reference) pairs; pixels labeled with the ignore index
  (255) are excluded from the metric; label indices are used as they are (the
  reduce-labels flag is false).
\<close>

definition labelled_pixels :: "(nat list \<times> nat list) list \<Rightarrow> nat \<Rightarrow> (nat \<times> nat) list" where
  "labelled_pixels acc ignore_index =
     filter (\<lambda>(p, l). l \<noteq> ignore_index)
       (concat (map (\<lambda>(preds, labels). zip preds labels) acc))"

text \<open>
  Modelled from the spec: the two areas of a class, missing from the sources: the pixels
  correctly predicted as that class, and the union of the pixels predicted as or truly
  of that class.
\<close>

definition area_intersect :: "nat \<Rightarrow> (nat \<times> nat) list \<Rightarrow> nat" where
  "area_intersect c px = length (filter (\<lambda>(p, l). p = c \<and> l = c) px)"

definition area_union :: "nat \<Rightarrow> (nat \<times> nat) list \<Rightarrow> nat" where
  "area_union c px = length (filter (\<lambda>(p, l). p = c \<or> l = c) px)"

text \<open>
  Modelled from the spec: the mean Intersection-over-Union, missing from the sources:
  for each class, the ratio of the pixels correctly predicted as that class to the union
  of predicted-or-true pixels of that class, averaged over classes. A class with an empty
  union has no ratio and is left out of the average; when every class is so, the metric
  has no value (\<open>None\<close>).
\<close>

definition mean_iou_spec :: "(nat list \<times> nat list) list \<Rightarrow> nat \<Rightarrow> nat \<Rightarrow> rat option" where
  "mean_iou_spec acc n ignore_index =
     (let px = labelled_pixels acc ignore_index;
          present = filter (\<lambda>c. 0 < area_union c px) [0..<n]
      in if present = [] then None
         else Some (sum_list (map (\<lambda>c. of_nat (area_intersect c px) / of_nat (area_union c px))
                                present)
                    / of_nat (length present)))"

text \<open>
  The (prediction, reference) pairs a validation pass over the loader \<open>v_loader\<close>
  accumulates when the weights are \<open>w\<close>.
\<close>

definition val_pairs ::
  "('w, 'g, 'o, 'b, 'p, 'l) collaborators \<Rightarrow> ('arr, 'pil, 'a) DataLoader \<Rightarrow> 'w \<Rightarrow> ('p \<times> 'l) list" where
  "val_pairs ext v_loader w =
     map (\<lambda>b. (logits_argmax ext w False b, batch_labels ext b))
       (map (load_val ext) (iter_batches v_loader []))"

text \<open>
  The state of a run once its first \<open>k\<close> epochs are over, and the value the metric
  computes at the end of epoch \<open>k\<close> (counted from 1), on the accumulator as that epoch
  leaves it.
\<close>

definition state_after_epochs ::
  "('w, 'g, 'o, 'b, 'p, 'l) collaborators \<Rightarrow> ('arr, 'pil, 'a) DataLoader
     \<Rightarrow> ('arr, 'pil, 'a) DataLoader \<Rightarrow> (nat \<Rightarrow> nat list) \<Rightarrow> 'w \<Rightarrow> 'o \<Rightarrow> nat
     \<Rightarrow> ('w, 'g, 'o, 'p, 'l) run_state" where
  "state_after_epochs ext t_loader v_loader perms w0 o0 k =
     run_epochs ext t_loader v_loader perms (initial_state t_loader w0 o0) [0..<k]"

definition epoch_metric ::
  "('w, 'g, 'o, 'b, 'p, 'l) collaborators \<Rightarrow> ('arr, 'pil, 'a) DataLoader
     \<Rightarrow> ('arr, 'pil, 'a) DataLoader \<Rightarrow> (nat \<Rightarrow> nat list) \<Rightarrow> 'w \<Rightarrow> 'o \<Rightarrow> nat \<Rightarrow> rat" where
  "epoch_metric ext t_loader v_loader perms w0 o0 k =
     mean_iou ext (metric_acc (state_after_epochs ext t_loader v_loader perms w0 o0 k))
       (num_labels ext) 255 False"

text \<open>
  Sample collaborators whose metric is the one above (0 where it has no value), with a
  model that predicts every label right.
\<close>

definition spec_ext :: "(nat, nat, nat, nat list, nat list, nat list) collaborators" where
  "spec_ext =
     \<lparr>loss_grad = (\<lambda>w m b. w + sum_list b),
      grad_add = (\<lambda>a g. a + g),
      adamw_step = (\<lambda>rate st w g. (Suc st, w + (case g of None \<Rightarrow> 0 | Some x \<Rightarrow> x))),
      logits_argmax = (\<lambda>w m b. b),
      batch_labels = (\<lambda>b. b),
      mean_iou = (\<lambda>acc n ignore_index reduce_labels.
                    case mean_iou_spec acc n ignore_index of None \<Rightarrow> 0 | Some v \<Rightarrow> v),
      num_labels = 150,
      load_train = (\<lambda>idxs. idxs),
      load_val = (\<lambda>idxs. idxs)\<rparr>"

section \<open>Properties of the dataset adapter\<close>

lemma shape_squeeze: "shape (squeeze v) = filter (\<lambda>d. d \<noteq> 1) (shape v)"
  by (simp add: squeeze_def)

lemma elems_squeeze: "elems (squeeze v) = elems v"
  by (simp add: squeeze_def)

lemma ds_getitem_valid:
  "0 \<le> idx \<Longrightarrow> idx < int (length xs) \<Longrightarrow> ds_getitem xs idx = Inr (xs ! nat idx)"
  by (simp add: ds_getitem_def Let_def)

lemma getitem_valid:
  assumes "0 \<le> idx" and "idx < int (len_dataset self)"
  shows "getitem fromarray self idx =
           Inr (\<lambda>k. map_option squeeze (encoded_sample fromarray self (nat idx) k))"
  using assms
  by (simp add: getitem_def len_dataset_def ds_getitem_valid Let_def encoded_sample_def)

lemma getitem_out_of_range:
  "int (len_dataset self) \<le> idx \<Longrightarrow> getitem fromarray self idx = Inl IndexError"
  by (simp add: getitem_def len_dataset_def ds_getitem_def Let_def)

lemma dom_map_option_squeeze: "dom (\<lambda>k. map_option squeeze (enc k)) = dom enc"
  by (auto simp: dom_def)

lemma demo_len: "len_dataset demo_dataset = 2"
  by (simp add: len_dataset_def demo_dataset_def)

lemma demo_encoded_0:
  "encoded_sample id demo_dataset 0 = demo_processor [1, 2, 3, 4] [0, 0, 1, 255]"
  by (simp add: encoded_sample_def demo_dataset_def)

lemma demo_encoded_1:
  "encoded_sample id demo_dataset (Suc 0) = demo_processor [5, 6, 7, 8] [2, 2, 2, 2]"
  by (simp add: encoded_sample_def demo_dataset_def)

lemma dom_demo_processor: "dom (demo_processor a b) = {''pixel_values'', ''labels''}"
  by (auto simp: demo_processor_def)

text \<open>
  Claim C4, as stated: for every valid index, \<open>__getitem__\<close> strips only the singleton
  batch dimension the encoder adds and leaves every other dimension of the encoded
  tensors unchanged. It fails where an encoded tensor has a further dimension of size 1:
  the sample adapter's encoder returns pixel values of shape \<open>[1, 1, 2, 2]\<close> (one
  channel), and the returned tensor has shape \<open>[2, 2]\<close>, not \<open>[1, 2, 2]\<close>.
\<close>

theorem getitem_squeeze_counterexample:
  "map_option shape (encoded_sample id demo_dataset 0 ''pixel_values'') = Some [1, 1, 2, 2]
   \<and> field_shape (getitem id demo_dataset 0) ''pixel_values'' = Some [2, 2]
   \<and> [2, 2] \<noteq> tl [1, 1, 2, 2 :: nat]"
  by (simp add: field_shape_def getitem_def ds_getitem_def demo_dataset_def
      demo_processor_def squeeze_def encoded_sample_def Let_def)

text \<open>
  Claim C4, amended: for every valid index, \<open>__getitem__\<close> returns the encoder's
  mapping with every tensor squeezed: the elements are unchanged and every dimension of
  size 1 is removed from the shape. For an encoded tensor of shape \<open>1 # rest\<close> in which
  no dimension of \<open>rest\<close> is 1, what is stripped is exactly the leading batch dimension.
\<close>

theorem getitem_squeeze_all_singletons:
  assumes "0 \<le> idx" and "idx < int (len_dataset self)"
    and "encoded_sample fromarray self (nat idx) k = Some v"
  shows "\<exists>m w. getitem fromarray self idx = Inr m \<and> m k = Some w
           \<and> elems w = elems v
           \<and> shape w = filter (\<lambda>d. d \<noteq> 1) (shape v)
           \<and> (\<forall>rest. shape v = 1 # rest \<and> 1 \<notin> set rest \<longrightarrow> shape w = rest)"
proof -
  let ?m = "\<lambda>k. map_option squeeze (encoded_sample fromarray self (nat idx) k)"
  have run: "getitem fromarray self idx = Inr ?m"
    using assms(1,2) by (rule getitem_valid)
  have at_k: "?m k = Some (squeeze v)"
    using assms(3) by simp
  have keep: "shape v = 1 # rest \<Longrightarrow> 1 \<notin> set rest \<Longrightarrow> shape (squeeze v) = rest" for rest
  proof -
    assume sh: "shape v = 1 # rest" and no1: "1 \<notin> set rest"
    from no1 have "filter (\<lambda>d. d \<noteq> 1) rest = rest"
      by (induction rest) auto
    with sh show "shape (squeeze v) = rest"
      by (simp add: shape_squeeze)
  qed
  from run at_k keep show ?thesis
    by (metis elems_squeeze shape_squeeze)
qed

theorem getitem_squeeze_all_singletons_witness:
  "(0::int) \<le> 1 \<and> 1 < int (len_dataset demo_dataset)
   \<and> encoded_sample id demo_dataset (nat 1) ''labels''
       = Some \<lparr>shape = [1, 2, 2], elems = [2, 2, 2, 2 :: nat]\<rparr>
   \<and> (\<exists>m w. getitem id demo_dataset 1 = Inr m \<and> m ''labels'' = Some w
          \<and> elems w = [2, 2, 2, 2] \<and> shape w = [2, 2])"
proof -
  have enc: "encoded_sample id demo_dataset (nat 1) ''labels''
               = Some \<lparr>shape = [1, 2, 2], elems = [2, 2, 2, 2 :: nat]\<rparr>"
    by (simp add: demo_encoded_1 demo_processor_def)
  have valid: "(0::int) \<le> 1" "1 < int (len_dataset demo_dataset)"
    by (simp_all add: demo_len)
  from getitem_squeeze_all_singletons [OF valid enc]
  obtain m w where "getitem id demo_dataset 1 = Inr m" "m ''labels'' = Some w"
    "elems w = [2, 2, 2, 2]" "shape w = [2, 2]"
    by auto
  with enc valid show ?thesis by blast
qed

text \<open>
  Claim C5: for every pair of valid indices \<open>i\<close> and \<open>j\<close> into the same adapter, the
  mappings returned by \<open>__getitem__\<close> have the same key set, the encoder's key set being
  fixed by its configuration and not by the data it is given.
\<close>

theorem getitem_keys_stable:
  assumes "\<forall>a b. dom (processor self a b) = K"
    and "0 \<le> i" and "i < int (len_dataset self)"
    and "0 \<le> j" and "j < int (len_dataset self)"
  shows "\<exists>mi mj. getitem fromarray self i = Inr mi \<and> getitem fromarray self j = Inr mj
           \<and> dom mi = K \<and> dom mj = dom mi"
proof -
  have "dom (encoded_sample fromarray self n) = K" for n
    using assms(1) by (simp add: encoded_sample_def)
  then have "dom (\<lambda>k. map_option squeeze (encoded_sample fromarray self n k)) = K" for n
    by (simp only: dom_map_option_squeeze)
  with getitem_valid [OF assms(2,3), of fromarray] getitem_valid [OF assms(4,5), of fromarray]
  show ?thesis by simp
qed

theorem getitem_keys_stable_witness:
  "(\<forall>a b. dom (processor demo_dataset a b) = {''pixel_values'', ''labels''})
   \<and> (0::int) \<le> 0 \<and> 0 < int (len_dataset demo_dataset)
   \<and> (0::int) \<le> 1 \<and> 1 < int (len_dataset demo_dataset)
   \<and> (\<exists>mi mj. getitem id demo_dataset 0 = Inr mi \<and> getitem id demo_dataset 1 = Inr mj
          \<and> dom mi = {''pixel_values'', ''labels''} \<and> dom mj = dom mi)"
proof -
  have keys: "\<forall>a b. dom (processor demo_dataset a b) = {''pixel_values'', ''labels''}"
    by (simp add: demo_dataset_def dom_demo_processor)
  have v0: "(0::int) \<le> 0" "0 < int (len_dataset demo_dataset)"
    and v1: "(0::int) \<le> 1" "1 < int (len_dataset demo_dataset)"
    by (simp_all add: demo_len)
  from getitem_keys_stable [OF keys v0 v1, where fromarray = id] keys v0 v1
  show ?thesis by blast
qed

section \<open>Properties of the batch loader\<close>

lemma chunks_Nil: "chunks B [] = []"
  by (simp add: chunks.simps)

lemma chunks_step:
  "0 < B \<Longrightarrow> xs \<noteq> [] \<Longrightarrow> chunks B xs = take B xs # chunks B (drop B xs)"
  by (subst chunks.simps) simp

lemma concat_chunks: "0 < B \<Longrightarrow> concat (chunks B xs) = xs"
proof (induction B xs rule: chunks.induct)
  case (1 B xs)
  show ?case
  proof (cases "xs = []")
    case True
    then show ?thesis by (simp add: chunks_Nil)
  next
    case False
    with 1 show ?thesis by (simp add: chunks_step)
  qed
qed

lemma length_chunks: "0 < B \<Longrightarrow> length (chunks B xs) = (length xs + B - 1) div B"
proof (induction B xs rule: chunks.induct)
  case (1 B xs)
  show ?case
  proof (cases "xs = []")
    case True
    with 1(2) show ?thesis by (simp add: chunks_Nil)
  next
    case False
    show ?thesis
    proof (cases "length xs \<le> B")
      case True
      with False 1(2) have "(length xs + B - 1) div B = 1"
        by (cases xs) (auto simp: div_eq_dividend_iff Suc_le_eq intro!: div_nat_eqI)
      with True False 1(2) show ?thesis by (simp add: chunks_step chunks_Nil)
    next
      case gt: False
      then have "length xs + B - 1 = (length xs - B + B - 1) + B" by simp
      then have "(length xs + B - 1) div B = Suc ((length xs - B + B - 1) div B)"
        using 1(2) by (metis div_add_self2 not_gr_zero Suc_eq_plus1)
      with False 1 show ?thesis by (simp add: chunks_step)
    qed
  qed
qed

lemma nth_chunks_full:
  "0 < B \<Longrightarrow> k < length xs div B \<Longrightarrow> length (chunks B xs ! k) = B"
proof (induction B xs arbitrary: k rule: chunks.induct)
  case (1 B xs)
  from 1(3) 1(2) have ne: "xs \<noteq> []" by auto
  from 1(3) have ge: "B \<le> length xs"
    by (metis div_less less_nat_zero_code not_le_imp_less)
  show ?case
  proof (cases k)
    case 0
    with ne 1(2) ge show ?thesis by (simp add: chunks_step)
  next
    case (Suc j)
    from ge have "length xs div B = Suc ((length xs - B) div B)"
      using 1(2) by (simp add: le_div_geq)
    with 1(3) Suc have "j < length (drop B xs) div B" by simp
    with 1(1) [of j] ne 1(2) have "length (chunks B (drop B xs) ! j) = B" by simp
    with Suc ne 1(2) show ?thesis by (simp add: chunks_step)
  qed
qed

lemma last_chunks:
  "0 < B \<Longrightarrow> xs \<noteq> [] \<Longrightarrow>
   length (last (chunks B xs)) = (if length xs mod B = 0 then B else length xs mod B)"
proof (induction B xs rule: chunks.induct)
  case (1 B xs)
  show ?case
  proof (cases "length xs \<le> B")
    case True
    with 1(2,3) show ?thesis
      by (cases "length xs = B") (simp_all add: chunks_step chunks_Nil)
  next
    case False
    then have ne: "drop B xs \<noteq> []" by simp
    then have "chunks B (drop B xs) \<noteq> []"
      using 1(2) by (simp add: chunks_step)
    moreover from False have "length xs mod B = (length xs - B) mod B"
      by (simp add: le_mod_geq)
    ultimately show ?thesis
      using 1 ne by (simp add: chunks_step)
  qed
qed

lemma ceil_cases:
  "0 < B \<Longrightarrow> (L + B - 1) div B = (if L mod B = 0 then L div B else Suc (L div B))"
proof -
  assume B: "0 < B"
  define q r where "q = L div B" and "r = L mod B"
  have L: "L = B * q + r" and r: "r < B"
    using B by (simp_all add: q_def r_def)
  show ?thesis
  proof (cases "r = 0")
    case True
    have "(L + B - 1) div B = q"
    proof (rule div_nat_eqI)
      show "B * q \<le> L + B - 1" using L B by simp
      show "L + B - 1 < B * Suc q" using L B True by simp
    qed
    with True show ?thesis by (simp add: q_def r_def)
  next
    case False
    have "(L + B - 1) div B = Suc q"
    proof (rule div_nat_eqI)
      show "B * Suc q \<le> L + B - 1" using L B False by simp
      show "L + B - 1 < B * Suc (Suc q)" using L B r by simp
    qed
    with False show ?thesis by (simp add: q_def r_def)
  qed
qed

lemma ceil_div: "0 < B \<Longrightarrow> (L + B - 1) div B = nat \<lceil>(of_nat L :: rat) / of_nat B\<rceil>"
proof -
  assume B: "0 < B"
  have "\<lceil>(of_nat L :: rat) / of_nat B\<rceil> = \<lceil>(of_int (int L) :: rat) / of_int (int B)\<rceil>"
    by simp
  also have "\<dots> = - ((- int L) div int B)"
    by (rule ceiling_divide_eq_div)
  also have "\<dots> = (if int L mod int B = 0 then int L div int B else int L div int B + 1)"
    using B by (simp add: zdiv_zminus1_eq_if)
  also have "\<dots> = int (if L mod B = 0 then L div B else Suc (L div B))"
  proof -
    have m: "int L mod int B = int (L mod B)" and d: "int L div int B = int (L div B)"
      by (simp_all only: zmod_int zdiv_int)
    show ?thesis unfolding m d by simp
  qed
  finally show ?thesis using ceil_cases [OF B, of L] by simp
qed

lemma len_loader_ceil:
  "0 < batch_size ld \<Longrightarrow>
   len_loader ld = nat \<lceil>(of_nat (len_dataset (dataset ld)) :: rat) / of_nat (batch_size ld)\<rceil>"
  unfolding len_loader_def by (rule ceil_div)

lemma demo_loader_fields:
  "len_dataset (dataset (demo_loader sh)) = 10" "batch_size (demo_loader sh) = 4"
  "shuffle (demo_loader sh) = sh"
  by (simp_all add: demo_loader_def sized_dataset_def len_dataset_def)

lemma chunks_4_of_10:
  "chunks 4 [a0, a1, a2, a3, a4, a5, a6, a7, a8, a9]
     = [[a0, a1, a2, a3], [a4, a5, a6, a7], [a8, a9]]"
  by (simp add: chunks_step chunks_Nil)

lemma upt_10: "[0..<10] = [0, 1, 2, 3, 4, 5, 6, 7, 8, 9]"
  by (simp add: upt_conv_Cons)

text \<open>
  Claim C2: for a dataset of length \<open>L > 0\<close> and batch size \<open>B > 0\<close>, one full pass
  of the Batch Loader yields exactly \<open>ceil(L/B)\<close> batches; the first \<open>L div B\<close> batches
  hold exactly \<open>B\<close> samples each and the final batch holds \<open>L mod B\<close> samples (or \<open>B\<close>
  when \<open>L mod B = 0\<close>); the multiset of sample indices in the batches is the index range
  \<open>[0, L)\<close>, no index skipped or duplicated. With shuffle enabled, the order drawn for
  the pass is a permutation of the index range.
\<close>

theorem loader_pass_covers_dataset:
  assumes L: "len_dataset (dataset ld) = L" and B: "batch_size ld = B"
    and pos: "0 < L" "0 < B"
    and perm: "shuffle ld \<Longrightarrow> mset perm = mset [0..<L]"
  shows "length (iter_batches ld perm) = nat \<lceil>(of_nat L :: rat) / of_nat B\<rceil>
         \<and> length (iter_batches ld perm) = len_loader ld
         \<and> (\<forall>k < L div B. length (iter_batches ld perm ! k) = B)
         \<and> length (last (iter_batches ld perm)) = (if L mod B = 0 then B else L mod B)
         \<and> mset (concat (iter_batches ld perm)) = mset [0..<L]"
proof -
  let ?order = "index_order ld perm"
  have ms: "mset ?order = mset [0..<L]"
    using perm L by (simp add: index_order_def)
  then have "size (mset ?order) = size (mset [0..<L])" by simp
  then have len: "length ?order = L" by simp
  with pos have ne: "?order \<noteq> []" by auto
  have n: "length (iter_batches ld perm) = (L + B - 1) div B"
    using pos len by (simp add: iter_batches_def B length_chunks)
  have full: "\<forall>k < L div B. length (iter_batches ld perm ! k) = B"
    using pos len by (simp add: iter_batches_def B nth_chunks_full)
  have lst: "length (last (iter_batches ld perm)) = (if L mod B = 0 then B else L mod B)"
    using pos(2) ne len by (simp add: iter_batches_def B last_chunks)
  have cover: "mset (concat (iter_batches ld perm)) = mset [0..<L]"
    using pos(2) ms by (simp add: iter_batches_def B concat_chunks)
  from n full lst cover show ?thesis
    using ceil_div [OF pos(2), of L] by (simp add: len_loader_def L B)
qed

theorem loader_pass_covers_dataset_witness:
  "len_dataset (dataset (demo_loader True)) = 10 \<and> batch_size (demo_loader True) = 4
   \<and> (0::nat) < 10 \<and> (0::nat) < 4
   \<and> mset [9, 8, 7, 6, 5, 4, 3, 2, 1, 0] = mset [0..<10]
   \<and> iter_batches (demo_loader True) [9, 8, 7, 6, 5, 4, 3, 2, 1, 0]
        = [[9, 8, 7, 6], [5, 4, 3, 2], [1, 0]]
   \<and> length (iter_batches (demo_loader True) [9, 8, 7, 6, 5, 4, 3, 2, 1, 0]) = 3
   \<and> length (last (iter_batches (demo_loader True) [9, 8, 7, 6, 5, 4, 3, 2, 1, 0])) = 2
   \<and> mset (concat (iter_batches (demo_loader True) [9, 8, 7, 6, 5, 4, 3, 2, 1, 0]))
        = mset [0..<10]"
proof -
  have p: "mset [9, 8, 7, 6, 5, 4, 3, 2, 1, 0] = mset [0..<10]"
    by (simp add: upt_10)
  have it: "iter_batches (demo_loader True) [9, 8, 7, 6, 5, 4, 3, 2, 1, 0]
        = [[9, 8, 7, 6], [5, 4, 3, 2], [1, 0]]"
    by (simp add: iter_batches_def index_order_def demo_loader_fields chunks_4_of_10)
  have c: "nat \<lceil>(of_nat 10 :: rat) / of_nat 4\<rceil> = 3"
    using ceil_div [of 4 10] by simp
  from loader_pass_covers_dataset [of "demo_loader True" 10 4 "[9, 8, 7, 6, 5, 4, 3, 2, 1, 0]"]
  show ?thesis using p it c
    by (simp add: demo_loader_fields)
qed

text \<open>
  Claim C8: with the shuffle flag disabled, any two full passes over the same loader
  visit the sample indices in the identical, original order, whatever the random draws;
  with shuffle enabled, a pass visits the indices in the order drawn when its iteration
  began, so two passes yield the same batches exactly when their draws coincide: they
  may differ and need not.
\<close>

theorem shuffle_flag_ordering:
  assumes "0 < batch_size ld"
  shows "(\<not> shuffle ld \<longrightarrow>
            iter_batches ld p1 = iter_batches ld p2
            \<and> concat (iter_batches ld p1) = [0..<len_dataset (dataset ld)])
         \<and> (shuffle ld \<longrightarrow>
            concat (iter_batches ld p1) = p1
            \<and> (iter_batches ld p1 = iter_batches ld p2 \<longleftrightarrow> p1 = p2))"
proof -
  have eq: "chunks (batch_size ld) p1 = chunks (batch_size ld) p2 \<longleftrightarrow> p1 = p2"
    using assms by (metis concat_chunks)
  show ?thesis
    using assms eq by (simp add: iter_batches_def index_order_def concat_chunks)
qed

theorem shuffle_flag_ordering_witness:
  "0 < batch_size (demo_loader False) \<and> 0 < batch_size (demo_loader True)
   \<and> iter_batches (demo_loader False) [9, 8, 7, 6, 5, 4, 3, 2, 1, 0]
       = iter_batches (demo_loader False) [0, 1, 2, 3, 4, 5, 6, 7, 8, 9]
   \<and> concat (iter_batches (demo_loader False) [9, 8, 7, 6, 5, 4, 3, 2, 1, 0]) = [0..<10]
   \<and> concat (iter_batches (demo_loader True) [9, 8, 7, 6, 5, 4, 3, 2, 1, 0])
       = [9, 8, 7, 6, 5, 4, 3, 2, 1, 0]
   \<and> iter_batches (demo_loader True) [9, 8, 7, 6, 5, 4, 3, 2, 1, 0]
       \<noteq> iter_batches (demo_loader True) [0, 1, 2, 3, 4, 5, 6, 7, 8, 9]"
proof -
  let ?down = "[9, 8, 7, 6, 5, 4, 3, 2, 1, 0 :: nat]" and ?up = "[0, 1, 2, 3, 4, 5, 6, 7, 8, 9 :: nat]"
  have off: "0 < batch_size (demo_loader False)" and on: "0 < batch_size (demo_loader True)"
    by (simp_all add: demo_loader_fields)
  have ne: "?down \<noteq> ?up" by simp
  have flag: "\<not> shuffle (demo_loader False)" "shuffle (demo_loader True)"
    and len: "len_dataset (dataset (demo_loader False)) = 10"
    by (simp_all add: demo_loader_fields)
  from shuffle_flag_ordering [OF off, of ?down ?up] flag(1)
  have 1: "iter_batches (demo_loader False) ?down = iter_batches (demo_loader False) ?up"
    and 2: "concat (iter_batches (demo_loader False) ?down) = [0..<10]"
    unfolding len by blast+
  from shuffle_flag_ordering [OF on, of ?down ?up] flag(2)
  have 3: "concat (iter_batches (demo_loader True) ?down) = ?down"
    and 4: "iter_batches (demo_loader True) ?down = iter_batches (demo_loader True) ?up
              \<longleftrightarrow> ?down = ?up"
    by blast+
  from 4 ne have 5: "iter_batches (demo_loader True) ?down \<noteq> iter_batches (demo_loader True) ?up"
    by simp
  from off on 1 2 3 5 show ?thesis by (intro conjI)
qed

text \<open>
  Every index a pass yields is a valid index of the loader's adapter, so fetching the
  samples of a batch never raises IndexError. This is what lets the run below take the
  fetching and stacking of a batch as a function of its indices.
\<close>

lemma set_concat_chunks: "0 < B \<Longrightarrow> \<Union> (set ` set (chunks B xs)) = set xs"
  using concat_chunks [of B xs] by (metis set_concat)

lemma loader_indices_valid:
  assumes "0 < batch_size ld"
    and "shuffle ld \<Longrightarrow> mset perm = mset [0..<len_dataset (dataset ld)]"
    and "b \<in> set (iter_batches ld perm)" and "i \<in> set b"
  shows "\<exists>m. getitem fromarray (dataset ld) (int i) = Inr m"
proof -
  have "set (index_order ld perm) = {0..<len_dataset (dataset ld)}"
  proof (cases "shuffle ld")
    case True
    with assms(2) have "mset perm = mset [0..<len_dataset (dataset ld)]" by simp
    then have "set perm = set [0..<len_dataset (dataset ld)]"
      by (rule mset_eq_setD)
    with True show ?thesis by (simp add: index_order_def)
  next
    case False
    then show ?thesis by (simp add: index_order_def)
  qed
  moreover from assms(1,3,4) have "i \<in> set (index_order ld perm)"
    using set_concat_chunks [of "batch_size ld" "index_order ld perm"]
    by (auto simp: iter_batches_def)
  ultimately have "i < len_dataset (dataset ld)" by simp
  then show ?thesis
    by (simp add: getitem_valid)
qed

section \<open>Properties of training and validation\<close>

lemma loss_backward_fields:
  "weights (loss_backward ext b s) = weights s"
  "opt_state (loss_backward ext b s) = opt_state s"
  "lr (loss_backward ext b s) = lr s"
  "sched (loss_backward ext b s) = sched s"
  "training (loss_backward ext b s) = training s"
  "metric_acc (loss_backward ext b s) = metric_acc s"
  "console (loss_backward ext b s) = console s"
  "saved (loss_backward ext b s) = saved s"
  "lr_used (loss_backward ext b s) = lr_used s"
  "backward_seen (loss_backward ext b s) = backward_seen s @ [grads s]"
  by (simp_all add: loss_backward_def Let_def)

lemma optimizer_step_fields:
  "grads (optimizer_step ext s) = grads s"
  "lr (optimizer_step ext s) = lr s"
  "sched (optimizer_step ext s) = sched s"
  "training (optimizer_step ext s) = training s"
  "metric_acc (optimizer_step ext s) = metric_acc s"
  "console (optimizer_step ext s) = console s"
  "saved (optimizer_step ext s) = saved s"
  "backward_seen (optimizer_step ext s) = backward_seen s"
  "lr_used (optimizer_step ext s) = lr_used s @ [lr s]"
  by (simp_all add: optimizer_step_def Let_def split: prod.splits)

lemma lr_scheduler_step_fields:
  "weights (lr_scheduler_step s) = weights s"
  "grads (lr_scheduler_step s) = grads s"
  "opt_state (lr_scheduler_step s) = opt_state s"
  "training (lr_scheduler_step s) = training s"
  "metric_acc (lr_scheduler_step s) = metric_acc s"
  "console (lr_scheduler_step s) = console s"
  "saved (lr_scheduler_step s) = saved s"
  "backward_seen (lr_scheduler_step s) = backward_seen s"
  "lr_used (lr_scheduler_step s) = lr_used s"
  "sched (lr_scheduler_step s) = (sched s)\<lparr>last_epoch := Suc (last_epoch (sched s))\<rparr>"
  "lr (lr_scheduler_step s) = get_lr ((sched s)\<lparr>last_epoch := Suc (last_epoch (sched s))\<rparr>)"
  by (simp_all add: lr_scheduler_step_def Let_def)

lemma zero_grad_fields:
  "weights (zero_grad s) = weights s"
  "grads (zero_grad s) = None"
  "opt_state (zero_grad s) = opt_state s"
  "lr (zero_grad s) = lr s"
  "sched (zero_grad s) = sched s"
  "training (zero_grad s) = training s"
  "metric_acc (zero_grad s) = metric_acc s"
  "console (zero_grad s) = console s"
  "saved (zero_grad s) = saved s"
  "backward_seen (zero_grad s) = backward_seen s"
  "lr_used (zero_grad s) = lr_used s"
  by (simp_all add: zero_grad_def)

lemmas step_fields =
  loss_backward_fields optimizer_step_fields lr_scheduler_step_fields zero_grad_fields

lemma train_step_fields:
  "grads (train_step ext s b) = None"
  "training (train_step ext s b) = training s"
  "metric_acc (train_step ext s b) = metric_acc s"
  "console (train_step ext s b) = console s"
  "saved (train_step ext s b) = saved s"
  "backward_seen (train_step ext s b) = backward_seen s @ [grads s]"
  "lr_used (train_step ext s b) = lr_used s @ [lr s]"
  "sched (train_step ext s b) = (sched s)\<lparr>last_epoch := Suc (last_epoch (sched s))\<rparr>"
  "lr (train_step ext s b) = get_lr ((sched s)\<lparr>last_epoch := Suc (last_epoch (sched s))\<rparr>)"
  by (simp_all add: train_step_def step_fields)

lemma val_step_fields:
  "weights (val_step ext s b) = weights s"
  "grads (val_step ext s b) = grads s"
  "opt_state (val_step ext s b) = opt_state s"
  "lr (val_step ext s b) = lr s"
  "sched (val_step ext s b) = sched s"
  "training (val_step ext s b) = training s"
  "console (val_step ext s b) = console s"
  "saved (val_step ext s b) = saved s"
  "backward_seen (val_step ext s b) = backward_seen s"
  "lr_used (val_step ext s b) = lr_used s"
  "metric_acc (val_step ext s b) =
     metric_acc s @ [(logits_argmax ext (weights s) (training s) b, batch_labels ext b)]"
  by (simp_all add: val_step_def Let_def)

lemma val_loop_fields:
  "weights (val_loop ext s bs) = weights s"
  "grads (val_loop ext s bs) = grads s"
  "opt_state (val_loop ext s bs) = opt_state s"
  "lr (val_loop ext s bs) = lr s"
  "sched (val_loop ext s bs) = sched s"
  "training (val_loop ext s bs) = training s"
  "console (val_loop ext s bs) = console s"
  "saved (val_loop ext s bs) = saved s"
  "backward_seen (val_loop ext s bs) = backward_seen s"
  "lr_used (val_loop ext s bs) = lr_used s"
  by (induction bs arbitrary: s; simp add: val_step_fields)+

lemma val_loop_metric_acc:
  "metric_acc (val_loop ext s bs) =
     metric_acc s @ map (\<lambda>b. (logits_argmax ext (weights s) (training s) b, batch_labels ext b)) bs"
  by (induction bs arbitrary: s) (simp_all add: val_step_fields)

lemma validation_pass_fields:
  "weights (fst (validation_pass ext s bs)) = weights s"
  "grads (fst (validation_pass ext s bs)) = grads s"
  "opt_state (fst (validation_pass ext s bs)) = opt_state s"
  "lr (fst (validation_pass ext s bs)) = lr s"
  "sched (fst (validation_pass ext s bs)) = sched s"
  "training (fst (validation_pass ext s bs)) = False"
  "console (fst (validation_pass ext s bs)) = console s"
  "saved (fst (validation_pass ext s bs)) = saved s"
  "backward_seen (fst (validation_pass ext s bs)) = backward_seen s"
  "lr_used (fst (validation_pass ext s bs)) = lr_used s"
  by (simp_all add: validation_pass_def Let_def val_loop_fields)

lemma validation_pass_metric_acc:
  "metric_acc (fst (validation_pass ext s bs)) =
     map (\<lambda>b. (logits_argmax ext (weights s) False b, batch_labels ext b)) bs"
  by (simp add: validation_pass_def Let_def val_loop_metric_acc val_loop_fields)

lemma validation_pass_result:
  "snd (validation_pass ext s bs) =
     mean_iou ext (map (\<lambda>b. (logits_argmax ext (weights s) False b, batch_labels ext b)) bs)
       (num_labels ext) 255 False"
  by (simp add: validation_pass_def Let_def val_loop_metric_acc val_loop_fields)

text \<open>
  Claim C1: a validation pass, with no training step in between, mutates no learnable
  weight: the weights after the pass are the weights before it. The pass runs forward
  computations only: the optimizer's state is untouched too, no optimizer step is made
  and no backward pass is run.
\<close>

theorem validation_keeps_weights:
  "weights (fst (validation_pass ext s val_batches)) = weights s
   \<and> opt_state (fst (validation_pass ext s val_batches)) = opt_state s
   \<and> lr_used (fst (validation_pass ext s val_batches)) = lr_used s
   \<and> backward_seen (fst (validation_pass ext s val_batches)) = backward_seen s"
  by (simp add: validation_pass_fields)

section \<open>Properties of a run, epoch by epoch\<close>

lemma train_step_lr_inv: "lr (train_step ext s b) = get_lr (sched (train_step ext s b))"
  by (simp add: train_step_fields)

lemma train_loop_fields:
  "training (train_loop ext s bs) = training s"
  "metric_acc (train_loop ext s bs) = metric_acc s"
  "console (train_loop ext s bs) = console s"
  "saved (train_loop ext s bs) = saved s"
  by (induction bs arbitrary: s; simp add: train_step_fields)+

lemma train_loop_grads: "grads s = None \<Longrightarrow> grads (train_loop ext s bs) = None"
  by (induction bs arbitrary: s) (simp_all add: train_step_fields)

lemma train_loop_backward_seen:
  "grads s = None \<Longrightarrow>
   backward_seen (train_loop ext s bs) = backward_seen s @ replicate (length bs) None"
proof (induction bs arbitrary: s)
  case Nil
  then show ?case by simp
next
  case (Cons b bs)
  have "backward_seen (train_loop ext (train_step ext s b) bs)
          = backward_seen (train_step ext s b) @ replicate (length bs) None"
    by (rule Cons.IH) (simp add: train_step_fields)
  with Cons.prems show ?case
    by (simp add: train_step_fields replicate_app_Cons_same)
qed

lemma train_loop_sched:
  "sched (train_loop ext s bs) = (sched s)\<lparr>last_epoch := last_epoch (sched s) + length bs\<rparr>"
  by (induction bs arbitrary: s) (simp_all add: train_step_fields)

lemma train_loop_lr_inv:
  "lr s = get_lr (sched s) \<Longrightarrow> lr (train_loop ext s bs) = get_lr (sched (train_loop ext s bs))"
  by (induction bs arbitrary: s) (simp_all add: train_step_lr_inv)

lemma map_shift: "map (\<lambda>k. f (Suc k)) [0..<n] = map f [Suc 0..<Suc n]"
  by (simp only: map_Suc_upt [symmetric] map_map o_def)

lemma train_loop_lr_used:
  "lr s = get_lr (sched s) \<Longrightarrow>
   lr_used (train_loop ext s bs) =
     lr_used s @ map (\<lambda>k. get_lr ((sched s)\<lparr>last_epoch := last_epoch (sched s) + k\<rparr>))
                   [0..<length bs]"
proof (induction bs arbitrary: s)
  case Nil
  then show ?case by simp
next
  case (Cons b bs)
  let ?s = "train_step ext s b"
  have "lr_used (train_loop ext ?s bs) =
          lr_used ?s @ map (\<lambda>k. get_lr ((sched ?s)\<lparr>last_epoch := last_epoch (sched ?s) + k\<rparr>))
                         [0..<length bs]"
    by (rule Cons.IH) (rule train_step_lr_inv)
  also have "\<dots> = lr_used s @ [get_lr (sched s)]
                 @ map (\<lambda>k. get_lr ((sched s)\<lparr>last_epoch := last_epoch (sched s) + Suc k\<rparr>))
                     [0..<length bs]"
    using Cons.prems by (simp add: train_step_fields)
  also have "map (\<lambda>k. get_lr ((sched s)\<lparr>last_epoch := last_epoch (sched s) + Suc k\<rparr>))
                     [0..<length bs]
             = map (\<lambda>k. get_lr ((sched s)\<lparr>last_epoch := last_epoch (sched s) + k\<rparr>))
                     [Suc 0..<Suc (length bs)]"
    by (rule map_shift)
  finally show ?case
    by (simp add: upt_conv_Cons del: upt_Suc)
qed

lemma epoch_body_unfold:
  "epoch_body ext t_loader v_loader perm s epoch =
     (fst (validation_pass ext
             (train_loop ext (s\<lparr>training := True\<rparr>) (map (load_train ext) (iter_batches t_loader perm)))
             (map (load_val ext) (iter_batches v_loader []))))
       \<lparr>console := console s @
          [epoch_line (epoch + 1) num_epochs
             (snd (validation_pass ext
               (train_loop ext (s\<lparr>training := True\<rparr>) (map (load_train ext) (iter_batches t_loader perm)))
               (map (load_val ext) (iter_batches v_loader []))))]\<rparr>"
proof -
  let ?s2 = "train_loop ext (s\<lparr>training := True\<rparr>) (map (load_train ext) (iter_batches t_loader perm))"
  let ?vp = "validation_pass ext ?s2 (map (load_val ext) (iter_batches v_loader []))"
  have "console (fst ?vp) = console s"
    by (simp add: validation_pass_fields train_loop_fields)
  then show ?thesis
    by (simp add: epoch_body_def Let_def split_beta)
qed

lemma epoch_body_fields:
  "weights (epoch_body ext t_loader v_loader perm s epoch) =
     weights (train_loop ext (s\<lparr>training := True\<rparr>) (map (load_train ext) (iter_batches t_loader perm)))"
  "sched (epoch_body ext t_loader v_loader perm s epoch) =
     (sched s)\<lparr>last_epoch := last_epoch (sched s) + length (iter_batches t_loader perm)\<rparr>"
  by (simp_all add: epoch_body_unfold validation_pass_fields train_loop_sched)

lemma epoch_body_grads:
  "grads s = None \<Longrightarrow> grads (epoch_body ext t_loader v_loader perm s epoch) = None"
  by (simp add: epoch_body_unfold validation_pass_fields train_loop_grads)

lemma epoch_body_backward_seen:
  "grads s = None \<Longrightarrow>
   backward_seen (epoch_body ext t_loader v_loader perm s epoch) =
     backward_seen s @ replicate (length (iter_batches t_loader perm)) None"
  by (simp add: epoch_body_unfold validation_pass_fields train_loop_backward_seen)

lemma epoch_body_lr_inv:
  "lr s = get_lr (sched s) \<Longrightarrow>
   lr (epoch_body ext t_loader v_loader perm s epoch)
     = get_lr (sched (epoch_body ext t_loader v_loader perm s epoch))"
  using train_loop_lr_inv [of "s\<lparr>training := True\<rparr>" ext "map (load_train ext) (iter_batches t_loader perm)"]
  by (simp add: epoch_body_unfold validation_pass_fields)

lemma epoch_body_lr_used:
  "lr s = get_lr (sched s) \<Longrightarrow>
   lr_used (epoch_body ext t_loader v_loader perm s epoch) =
     lr_used s @ map (\<lambda>k. get_lr ((sched s)\<lparr>last_epoch := last_epoch (sched s) + k\<rparr>))
                   [0..<length (iter_batches t_loader perm)]"
  using train_loop_lr_used [of "s\<lparr>training := True\<rparr>" ext "map (load_train ext) (iter_batches t_loader perm)"]
  by (simp add: epoch_body_unfold validation_pass_fields)

lemma epoch_body_console:
  "console (epoch_body ext t_loader v_loader perm s epoch) =
     console s @
       [epoch_line (epoch + 1) num_epochs
          (mean_iou ext
             (map (\<lambda>b. (logits_argmax ext (weights (epoch_body ext t_loader v_loader perm s epoch)) False b,
                        batch_labels ext b))
                (map (load_val ext) (iter_batches v_loader [])))
             (num_labels ext) 255 False)]"
  by (simp add: epoch_body_fields) (simp add: epoch_body_unfold validation_pass_result)

lemma epoch_body_metric_acc:
  "metric_acc (epoch_body ext t_loader v_loader perm s epoch) =
     map (\<lambda>b. (logits_argmax ext (weights (epoch_body ext t_loader v_loader perm s epoch)) False b,
                batch_labels ext b))
       (map (load_val ext) (iter_batches v_loader []))"
  by (simp add: epoch_body_fields) (simp add: epoch_body_unfold validation_pass_metric_acc)

lemma map_upt_split:
  "map f [0..<a + b] = map f [0..<a] @ map (\<lambda>k. f (a + k)) [0..<b]"
proof -
  have "map (\<lambda>k. a + k) [0..<b] = [a..<a + b]"
    using map_add_upt [of a b] by (simp add: add.commute)
  then have "[0..<a + b] = [0..<a] @ map (\<lambda>k. a + k) [0..<b]"
    using upt_add_eq_append [of 0 a b] by simp
  then show ?thesis by (simp add: o_def)
qed

lemma steps_in_simps:
  "steps_in t_loader perms [] = 0"
  "steps_in t_loader perms (e # es)
     = length (iter_batches t_loader (perms e)) + steps_in t_loader perms es"
  by (simp_all add: steps_in_def)

lemma run_epochs_effect:
  assumes "grads s = None" and "lr s = get_lr (sched s)"
  shows "grads (run_epochs ext t_loader v_loader perms s es) = None
         \<and> lr (run_epochs ext t_loader v_loader perms s es)
             = get_lr (sched (run_epochs ext t_loader v_loader perms s es))
         \<and> sched (run_epochs ext t_loader v_loader perms s es)
             = (sched s)\<lparr>last_epoch := last_epoch (sched s) + steps_in t_loader perms es\<rparr>
         \<and> backward_seen (run_epochs ext t_loader v_loader perms s es)
             = backward_seen s @ replicate (steps_in t_loader perms es) None
         \<and> lr_used (run_epochs ext t_loader v_loader perms s es)
             = lr_used s @ map (\<lambda>k. get_lr ((sched s)\<lparr>last_epoch := last_epoch (sched s) + k\<rparr>))
                             [0..<steps_in t_loader perms es]"
  using assms
proof (induction es arbitrary: s)
  case Nil
  then show ?case by (simp add: steps_in_simps)
next
  case (Cons e es)
  let ?s = "epoch_body ext t_loader v_loader (perms e) s e"
  let ?m = "length (iter_batches t_loader (perms e))"
  have g: "grads ?s = None" and i: "lr ?s = get_lr (sched ?s)"
    using Cons.prems by (simp_all add: epoch_body_grads epoch_body_lr_inv)
  note IH = Cons.IH [OF g i]
  have sc: "sched ?s = (sched s)\<lparr>last_epoch := last_epoch (sched s) + ?m\<rparr>"
    by (simp add: epoch_body_fields)
  have bs: "backward_seen ?s = backward_seen s @ replicate ?m None"
    using Cons.prems by (simp add: epoch_body_backward_seen)
  have lu: "lr_used ?s = lr_used s
              @ map (\<lambda>k. get_lr ((sched s)\<lparr>last_epoch := last_epoch (sched s) + k\<rparr>)) [0..<?m]"
    using Cons.prems by (simp add: epoch_body_lr_used)
  from IH show ?case
    by (simp add: steps_in_simps sc bs lu replicate_add map_upt_split add.assoc)
qed


lemma initial_state_fields:
  "weights (initial_state t_loader w0 o0) = w0"
  "grads (initial_state t_loader w0 o0) = None"
  "opt_state (initial_state t_loader w0 o0) = o0"
  "training (initial_state t_loader w0 o0) = True"
  "metric_acc (initial_state t_loader w0 o0) = []"
  "console (initial_state t_loader w0 o0) = []"
  "backward_seen (initial_state t_loader w0 o0) = []"
  "lr_used (initial_state t_loader w0 o0) = []"
  "sched (initial_state t_loader w0 o0) =
     \<lparr>base_lr = 5 / 100000, num_warmup_steps = 0,
      num_training_steps = num_steps t_loader, last_epoch = 0\<rparr>"
  "lr (initial_state t_loader w0 o0 :: ('w, 'g, 'o, 'p, 'l) run_state)
     = get_lr (sched (initial_state t_loader w0 o0 :: ('w, 'g, 'o, 'p, 'l) run_state))"
  "saved (initial_state t_loader w0 o0) = []"
  by (simp_all add: initial_state_def get_scheduler_def loaded_state_def Let_def)

lemma get_lr_linear:
  assumes "0 < N" and "k \<le> N"
  shows "get_lr \<lparr>base_lr = peak, num_warmup_steps = 0, num_training_steps = N, last_epoch = k\<rparr>
           = peak * (of_nat (N - k) / of_nat N)"
proof -
  have "(of_int (int N - int k) :: rat) = of_nat (N - k)"
    using assms(2) by (simp add: of_nat_diff)
  moreover have "(0::rat) \<le> of_nat (N - k) / of_nat N"
    by simp
  moreover have "max 1 (N - 0) = N"
    using assms(1) by simp
  ultimately have "lr_lambda 0 N k = of_nat (N - k) / of_nat N"
    unfolding lr_lambda_def by (simp only: not_less_zero if_False max_absorb2)
  then show ?thesis
    by (simp add: get_lr_def)
qed

lemma run_effect:
  "grads (run ext t_loader v_loader perms w0 o0) = None"
  "backward_seen (run ext t_loader v_loader perms w0 o0)
     = replicate (steps_in t_loader perms [0..<num_epochs]) None"
  "sched (run ext t_loader v_loader perms w0 o0)
     = \<lparr>base_lr = 5 / 100000, num_warmup_steps = 0, num_training_steps = num_steps t_loader,
        last_epoch = steps_in t_loader perms [0..<num_epochs]\<rparr>"
  "lr (run ext t_loader v_loader perms w0 o0)
     = get_lr (sched (run ext t_loader v_loader perms w0 o0))"
  "lr_used (run ext t_loader v_loader perms w0 o0)
     = map (\<lambda>k. get_lr \<lparr>base_lr = 5 / 100000, num_warmup_steps = 0,
                         num_training_steps = num_steps t_loader, last_epoch = k\<rparr>)
         [0..<steps_in t_loader perms [0..<num_epochs]]"
proof -
  note e = run_epochs_effect [of "initial_state t_loader w0 o0" ext t_loader v_loader perms
          "[0..<num_epochs]", OF initial_state_fields(2) initial_state_fields(10),
          folded run_def]
  note e1 = e [THEN conjunct1]
    and e2 = e [THEN conjunct2, THEN conjunct1]
    and e3 = e [THEN conjunct2, THEN conjunct2, THEN conjunct1]
    and e4 = e [THEN conjunct2, THEN conjunct2, THEN conjunct2, THEN conjunct1]
    and e5 = e [THEN conjunct2, THEN conjunct2, THEN conjunct2, THEN conjunct2]
  from e1 show "grads (run ext t_loader v_loader perms w0 o0) = None"
    .
  from e4 show "backward_seen (run ext t_loader v_loader perms w0 o0)
     = replicate (steps_in t_loader perms [0..<num_epochs]) None"
    by (simp only: initial_state_fields(7) append_Nil)
  from e3 show "sched (run ext t_loader v_loader perms w0 o0)
     = \<lparr>base_lr = 5 / 100000, num_warmup_steps = 0, num_training_steps = num_steps t_loader,
        last_epoch = steps_in t_loader perms [0..<num_epochs]\<rparr>"
    by (simp add: initial_state_fields(9))
  from e2 show "lr (run ext t_loader v_loader perms w0 o0)
     = get_lr (sched (run ext t_loader v_loader perms w0 o0))"
    .
  from e5 show "lr_used (run ext t_loader v_loader perms w0 o0)
     = map (\<lambda>k. get_lr \<lparr>base_lr = 5 / 100000, num_warmup_steps = 0,
                         num_training_steps = num_steps t_loader, last_epoch = k\<rparr>)
         [0..<steps_in t_loader perms [0..<num_epochs]]"
    by (simp add: initial_state_fields(8,9))
qed

text \<open>
  Claim C10: at the start of every training batch's backward pass the accumulated
  gradient is cleared. Over the whole run, from the state the driver starts in, each
  \<^verbatim>\<open>loss.backward()\<close> found no accumulated gradient on entry: one entry per training
  step, all of them \<open>None\<close>, the validation passes in between leaving the gradient as
  it was; and the run ends with the gradient cleared.
\<close>

theorem gradients_clear_at_backward:
  "backward_seen (run ext t_loader v_loader perms w0 o0)
     = replicate (steps_in t_loader perms [0..<num_epochs]) None
   \<and> grads (run ext t_loader v_loader perms w0 o0) = None"
  by (simp add: run_effect)

text \<open>
  Claim C9: in every epoch the metric accumulator is reset at the start of the
  validation pass, so whatever it held before, after the epoch it holds exactly one
  (prediction, reference) pair per validation batch of this epoch, computed with the
  weights the epoch's training left; and the value printed is the metric computed from
  these pairs with the class count of the model configuration, ignore index 255 and the
  reduce-labels flag false.
\<close>

theorem metric_reset_and_compute_parameters:
  "metric_acc (epoch_body ext t_loader v_loader perm s epoch)
     = map (\<lambda>b. (logits_argmax ext (weights (epoch_body ext t_loader v_loader perm s epoch)) False b,
                batch_labels ext b))
         (map (load_val ext) (iter_batches v_loader []))
   \<and> console (epoch_body ext t_loader v_loader perm s epoch)
     = console s @
         [epoch_line (epoch + 1) num_epochs
            (mean_iou ext (metric_acc (epoch_body ext t_loader v_loader perm s epoch))
               (num_labels ext) 255 False)]"
proof (intro conjI)
  show "metric_acc (epoch_body ext t_loader v_loader perm s epoch)
     = map (\<lambda>b. (logits_argmax ext (weights (epoch_body ext t_loader v_loader perm s epoch)) False b,
                batch_labels ext b))
         (map (load_val ext) (iter_batches v_loader []))"
    by (rule epoch_body_metric_acc)
  then show "console (epoch_body ext t_loader v_loader perm s epoch)
     = console s @
         [epoch_line (epoch + 1) num_epochs
            (mean_iou ext (metric_acc (epoch_body ext t_loader v_loader perm s epoch))
               (num_labels ext) 255 False)]"
    using epoch_body_console [of ext t_loader v_loader perm s epoch] by (simp only:)
qed

lemma train_loader_fields:
  "len_dataset (dataset (train_loader proc xs)) = length xs"
  "batch_size (train_loader proc xs) = 4"
  "shuffle (train_loader proc xs) = True"
  "ds (dataset (train_loader proc xs)) = xs"
  by (simp_all add: train_loader_def len_dataset_def)

lemma val_loader_fields:
  "len_dataset (dataset (val_loader proc xs)) = length xs"
  "batch_size (val_loader proc xs) = 2"
  "shuffle (val_loader proc xs) = False"
  "ds (dataset (val_loader proc xs)) = xs"
  by (simp_all add: val_loader_def len_dataset_def)

lemma train_batches_per_epoch:
  "length (iter_batches (train_loader proc xs) perm) = (length perm + 3) div 4"
  by (simp add: iter_batches_def index_order_def train_loader_fields length_chunks)

lemma steps_in_const:
  "\<forall>e \<in> set es. length (iter_batches t_loader (perms e)) = m \<Longrightarrow>
   steps_in t_loader perms es = m * length es"
  by (induction es) (simp_all add: steps_in_simps)

section \<open>The learning-rate schedule over the run\<close>

lemma driver_steps:
  assumes "\<forall>e. length (perms e) = 100"
  shows "steps_in (train_loader proc train_ds) perms [0..<num_epochs] = 125"
proof -
  have "\<forall>e \<in> set [0..<num_epochs].
          length (iter_batches (train_loader proc train_ds) (perms e)) = 25"
    using assms by (simp add: train_batches_per_epoch)
  then have "steps_in (train_loader proc train_ds) perms [0..<num_epochs]
               = 25 * length [0..<num_epochs]"
    by (rule steps_in_const)
  then show ?thesis by (simp add: num_epochs_def)
qed

lemma driver_num_steps:
  assumes "length train_ds = 100"
  shows "len_loader (train_loader proc train_ds) = 25"
    and "num_steps (train_loader proc train_ds) = 125"
  using assms by (simp_all add: num_steps_def num_epochs_def len_loader_def train_loader_fields)

lemma driver_run_schedule:
  assumes "length train_ds = 100" and "\<forall>e. length (perms e) = 100"
  shows "lr_used (run ext (train_loader proc train_ds) v_loader perms w0 o0)
           = map (\<lambda>k. 5 / 100000 * (of_nat (125 - k) / 125)) [0..<125]"
    and "sched (run ext (train_loader proc train_ds) v_loader perms w0 o0)
           = \<lparr>base_lr = 5 / 100000, num_warmup_steps = 0,
              num_training_steps = 125, last_epoch = 125\<rparr>"
    and "lr (run ext (train_loader proc train_ds) v_loader perms w0 o0) = 0"
proof -
  let ?tl = "train_loader proc train_ds"
  let ?r = "run ext ?tl v_loader perms w0 o0"
  note n = driver_num_steps [OF assms(1), of proc]
  note st = driver_steps [OF assms(2), of proc train_ds]
  show sc: "sched ?r = \<lparr>base_lr = 5 / 100000, num_warmup_steps = 0,
                         num_training_steps = 125, last_epoch = 125\<rparr>"
    by (simp add: run_effect(3) n st)
  have "lr ?r = get_lr (sched ?r)"
    by (rule run_effect(4))
  also have "\<dots> = 5 / 100000 * (of_nat (125 - 125) / of_nat 125)"
    unfolding sc by (rule get_lr_linear) simp_all
  finally show "lr ?r = 0" by simp
  have "lr_used ?r = map (\<lambda>k. get_lr \<lparr>base_lr = 5 / 100000, num_warmup_steps = 0,
                         num_training_steps = 125, last_epoch = k\<rparr>) [0..<125]"
    by (simp add: run_effect(5) n st)
  also have "\<dots> = map (\<lambda>k. 5 / 100000 * (of_nat (125 - k) / 125)) [0..<125]"
  proof (rule map_cong [OF refl])
    fix k :: nat
    assume "k \<in> set [0..<125]"
    then have "k \<le> 125" by simp
    with get_lr_linear [of 125 k "5 / 100000"]
    show "get_lr \<lparr>base_lr = 5 / 100000, num_warmup_steps = 0,
                   num_training_steps = 125, last_epoch = k\<rparr>
            = 5 / 100000 * (of_nat (125 - k) / 125)"
      by simp
  qed
  finally show "lr_used ?r = map (\<lambda>k. 5 / 100000 * (of_nat (125 - k) / 125)) [0..<125]" .
qed

lemma first_update_rate:
  assumes "length train_ds = 100" and "\<forall>e. length (perms e) = 100"
  shows "hd (lr_used (run ext (train_loader proc train_ds) v_loader perms w0 o0)) = 5 / 100000"
proof -
  have "hd (map (\<lambda>k. 5 / 100000 * (of_nat (125 - k) / 125 :: rat)) [0..<125]) = 5 / 100000"
    by (simp add: hd_map upt_conv_Cons)
  then show ?thesis
    by (simp only: driver_run_schedule(1) [OF assms])
qed

lemma last_update_rate:
  assumes "length train_ds = 100" and "\<forall>e. length (perms e) = 100"
  shows "last (lr_used (run ext (train_loader proc train_ds) v_loader perms w0 o0))
           = 1 / 2500000"
proof -
  have "last (map (\<lambda>k. 5 / 100000 * (of_nat (125 - k) / 125 :: rat)) [0..<Suc 124]) = 1 / 2500000"
    by (simp only: last_map upt_Suc) simp
  then show ?thesis
    by (simp add: driver_run_schedule(1) [OF assms])
qed

lemma sized_dataset_length: "length (ds (sized_dataset n)) = n"
  by (simp add: sized_dataset_def)

lemma demo_perms_length: "\<forall>e. length (demo_perms e) = 100"
  by (simp add: demo_perms_def)

lemma nth_update_rate:
  assumes "length train_ds = 100" and "\<forall>e. length (perms e) = 100" and "k < 125"
  shows "lr_used (run ext (train_loader proc train_ds) v_loader perms w0 o0) ! k
           = 5 / 100000 * (of_nat (125 - k) / 125)"
  using assms(3) by (simp add: driver_run_schedule(1) [OF assms(1,2)])

text \<open>
  Claim C3, as stated: the schedule starts at 5e-5 at step 1 and reaches exactly 0 at
  step 125, a step's rate being the one its optimizer update uses. It fails at step 125:
  in a run of the driver's loaders over 100 training samples, 125 updates are made and
  the 125th uses the rate 5e-5 / 125 = 4e-7, not 0.
\<close>

theorem rate_at_step_125_counterexample:
  "length (lr_used (run (demo_ext 0) (train_loader demo_processor (ds (sized_dataset 100)))
                      (val_loader demo_processor (ds (sized_dataset 50))) demo_perms 0 0)) = 125
   \<and> lr_used (run (demo_ext 0) (train_loader demo_processor (ds (sized_dataset 100)))
                (val_loader demo_processor (ds (sized_dataset 50))) demo_perms 0 0) ! 124
       = 1 / 2500000
   \<and> lr_used (run (demo_ext 0) (train_loader demo_processor (ds (sized_dataset 100)))
                (val_loader demo_processor (ds (sized_dataset 50))) demo_perms 0 0) ! 124
       \<noteq> 0"
proof -
  have len: "length (ds (sized_dataset 100)) = 100"
    by (rule sized_dataset_length)
  have n: "length (lr_used (run (demo_ext 0) (train_loader demo_processor (ds (sized_dataset 100)))
                      (val_loader demo_processor (ds (sized_dataset 50))) demo_perms 0 0)) = 125"
    by (simp add: driver_run_schedule(1) [OF len demo_perms_length])
  have r: "lr_used (run (demo_ext 0) (train_loader demo_processor (ds (sized_dataset 100)))
                (val_loader demo_processor (ds (sized_dataset 50))) demo_perms 0 0) ! 124
       = 1 / 2500000"
    using nth_update_rate [OF len demo_perms_length, of 124] by simp
  from n r show ?thesis by simp
qed

text \<open>
  Claim C3, amended: with a training subset of 100 samples, training batch size 4 and 5
  epochs, the loader has 25 batches and the total number of training steps is
  5 * 25 = 125; the linear schedule with zero warm-up starts at 5e-5 at step 1 and
  decays linearly, step \<open>k\<close> using 5e-5 * (126 - k) / 125, so that step 125 uses
  4e-7; the rate is exactly 0 only once step 125 is over, after the 125th advance of the
  scheduler.
\<close>

theorem schedule_over_125_steps:
  assumes "length train_ds = 100" and "\<forall>e. length (perms e) = 100"
  shows "len_loader (train_loader proc train_ds) = 25
         \<and> num_steps (train_loader proc train_ds) = 125
         \<and> lr_used (run ext (train_loader proc train_ds) v_loader perms w0 o0)
             = map (\<lambda>k. 5 / 100000 * (of_nat (125 - k) / 125)) [0..<125]
         \<and> hd (lr_used (run ext (train_loader proc train_ds) v_loader perms w0 o0)) = 5 / 100000
         \<and> lr_used (run ext (train_loader proc train_ds) v_loader perms w0 o0) ! 0 = 5 / 100000
         \<and> lr_used (run ext (train_loader proc train_ds) v_loader perms w0 o0) ! 124 = 1 / 2500000
         \<and> last_epoch (sched (run ext (train_loader proc train_ds) v_loader perms w0 o0)) = 125
         \<and> lr (run ext (train_loader proc train_ds) v_loader perms w0 o0) = 0"
  using driver_num_steps [OF assms(1), of proc] driver_run_schedule [OF assms, of ext proc v_loader w0 o0]
    first_update_rate [OF assms, of ext proc v_loader w0 o0]
    nth_update_rate [OF assms, of 0 ext proc v_loader w0 o0]
    nth_update_rate [OF assms, of 124 ext proc v_loader w0 o0]
  by simp

theorem schedule_over_125_steps_witness:
  "length (ds (sized_dataset 100)) = 100 \<and> (\<forall>e::nat. length [0..<100] = 100)
   \<and> num_steps (train_loader demo_processor (ds (sized_dataset 100))) = 125
   \<and> hd (lr_used (run (demo_ext 0) (train_loader demo_processor (ds (sized_dataset 100)))
                  (val_loader demo_processor (ds (sized_dataset 50))) (\<lambda>e. [0..<100]) 0 0))
       = 5 / 100000
   \<and> lr_used (run (demo_ext 0) (train_loader demo_processor (ds (sized_dataset 100)))
                  (val_loader demo_processor (ds (sized_dataset 50))) (\<lambda>e. [0..<100]) 0 0) ! 124
       = 1 / 2500000
   \<and> lr (run (demo_ext 0) (train_loader demo_processor (ds (sized_dataset 100)))
            (val_loader demo_processor (ds (sized_dataset 50))) (\<lambda>e. [0..<100]) 0 0) = 0"
proof -
  have len: "length (ds (sized_dataset 100)) = 100"
    by (rule sized_dataset_length)
  have draws: "\<forall>e::nat. length ((\<lambda>e. [0..<100]) e) = 100"
    by simp
  note t = schedule_over_125_steps [OF len draws, of demo_processor "demo_ext 0"
         "val_loader demo_processor (ds (sized_dataset 50))" 0 0]
  note steps = t [THEN conjunct2, THEN conjunct1]
    and first = t [THEN conjunct2, THEN conjunct2, THEN conjunct2, THEN conjunct1]
    and at125 = t [THEN conjunct2, THEN conjunct2, THEN conjunct2, THEN conjunct2,
                   THEN conjunct2, THEN conjunct1]
    and final = t [THEN conjunct2, THEN conjunct2, THEN conjunct2, THEN conjunct2,
                   THEN conjunct2, THEN conjunct2, THEN conjunct2]
  from len steps first at125 final show ?thesis by simp
qed

section \<open>The configuration of the driver\<close>

lemma select_empty: "select indices [] = Inr []"
  by (simp add: select_def)

lemma select_front:
  "select [0..<n] xs =
     (if xs = [] then Inr [] else if n \<le> length xs then Inr (take n xs) else Inl IndexError)"
proof (cases "xs = []")
  case True
  then show ?thesis by (simp add: select_def)
next
  case ne: False
  show ?thesis
  proof (cases "n \<le> length xs")
    case True
    then have "map (\<lambda>i. xs ! i) [0..<n] = take n xs"
      by (simp add: list_eq_iff_nth_eq)
    moreover from True have "list_all (\<lambda>i. i < length xs) [0..<n]"
      by (simp add: list_all_iff)
    ultimately show ?thesis using True ne by (simp add: select_def)
  next
    case False
    then have "\<not> list_all (\<lambda>i. i < length xs) [0..<n]"
      by (auto simp: list_all_iff not_le intro: bexI [of _ "length xs"])
    with False ne show ?thesis by (simp add: select_def)
  qed
qed

lemma prepare_data_ok:
  assumes "100 \<le> length (hf_shuffle 42 (train d))" and "50 \<le> length (validation d)"
  shows "prepare_data hf_shuffle d
           = Inr (take 100 (hf_shuffle 42 (train d)), take 50 (validation d))"
  using assms by (auto simp add: prepare_data_def select_front)

lemma prepare_data_short_train:
  "0 < length (hf_shuffle 42 (train d)) \<Longrightarrow> length (hf_shuffle 42 (train d)) < 100 \<Longrightarrow>
   prepare_data hf_shuffle d = Inl IndexError"
  by (simp add: prepare_data_def select_front)

lemma prepare_data_empty:
  "hf_shuffle 42 (train d) = [] \<Longrightarrow> validation d = [] \<Longrightarrow>
   prepare_data hf_shuffle d = Inr ([], [])"
  by (simp add: prepare_data_def select_empty)

lemma demo_dict_lengths:
  "length (demo_shuffle 42 (train demo_dict)) = 120" "length (validation demo_dict) = 60"
  by (simp_all add: demo_dict_def demo_shuffle_def)

section \<open>Console output\<close>

lemma round_half_even_bounds:
  "\<lfloor>x\<rfloor> \<le> round_half_even x" "round_half_even x \<le> \<lfloor>x\<rfloor> + 1"
  by (simp_all add: round_half_even_def Let_def)

lemma round_half_even_nonneg: "0 \<le> x \<Longrightarrow> 0 \<le> round_half_even x"
  using round_half_even_bounds(1) [of x] by (simp add: order_trans [of 0 "\<lfloor>x\<rfloor>"])

lemma round_half_even_below:
  assumes "x < of_int n - 1 / 2"
  shows "round_half_even x < n"
proof -
  have "x < of_int n" using assms by simp
  then have fl: "\<lfloor>x\<rfloor> < n" by (simp add: floor_less_iff)
  show ?thesis
  proof (cases "\<lfloor>x\<rfloor> + 1 < n")
    case True
    with round_half_even_bounds(2) [of x] show ?thesis by simp
  next
    case False
    with fl have "\<lfloor>x\<rfloor> = n - 1" by simp
    then have "x - of_int \<lfloor>x\<rfloor> < 1 / 2" using assms by simp
    then have "round_half_even x = \<lfloor>x\<rfloor>"
      by (simp add: round_half_even_def Let_def)
    with fl show ?thesis by simp
  qed
qed

lemma round_half_even_above:
  assumes "of_int n - 1 / 2 \<le> x" and "x \<le> of_int n" and "even n"
  shows "round_half_even x = n"
proof (cases "x = of_int n")
  case True
  then show ?thesis by (simp add: round_half_even_def Let_def)
next
  case False
  with assms(2) have lt: "x < of_int n" by simp
  have "of_int (n - 1) \<le> x" using assms(1) by simp
  with lt have fl: "\<lfloor>x\<rfloor> = n - 1"
    by (simp add: floor_unique)
  then have d: "1 / 2 \<le> x - of_int \<lfloor>x\<rfloor>" using assms(1) by simp
  have odd: "\<not> even (n - 1)" using assms(3) by simp
  show ?thesis
    using d odd by (auto simp add: round_half_even_def Let_def fl)
qed


lemma is_digit_digit_char: "is_digit (digit_char d)"
proof -
  have "d mod 10 < length ''0123456789''" by simp
  then have "''0123456789'' ! (d mod 10) \<in> set ''0123456789''"
    by (rule nth_mem)
  then show ?thesis by (simp only: is_digit_def digit_char_def)
qed

lemma digit_char_0: "digit_char 0 = CHR ''0''"
  by (simp add: digit_char_def)

lemma show_nat_digit: "n < 10 \<Longrightarrow> show_nat n = [digit_char n]"
  by (subst show_nat.simps) simp

lemma show_nat_small:
  "show_nat 0 = ''0''" "show_nat 1 = ''1''" "show_nat 2 = ''2''" "show_nat 3 = ''3''"
  "show_nat 4 = ''4''" "show_nat 5 = ''5''" "show_nat (Suc 0) = ''1''"
  by (simp_all add: show_nat_digit digit_char_def)

lemma fmt4_below:
  assumes "0 \<le> v" and "v < 99995 / 100000"
  shows "\<exists>a b c d. is_digit a \<and> is_digit b \<and> is_digit c \<and> is_digit d
           \<and> fmt4 v = ''0.'' @ [a, b, c, d]"
proof -
  let ?n = "nat (round_half_even (\<bar>v\<bar> * 10000))"
  have abs: "\<bar>v\<bar> = v" using assms(1) by simp
  have "v * 10000 < of_int 10000 - 1 / 2" using assms(2) by simp
  then have "round_half_even (v * 10000) < 10000"
    by (rule round_half_even_below)
  then have small: "?n < 10000" by (simp add: abs)
  then have "fmt4 v = ''0.'' @ [digit_char (?n div 1000), digit_char (?n div 100),
                                digit_char (?n div 10), digit_char ?n]"
    using assms(1) by (simp add: fmt4_def Let_def show_nat_small del: abs_of_nonneg)
  then show ?thesis
    using is_digit_digit_char by blast
qed

lemma fmt4_top:
  assumes "99995 / 100000 \<le> v" and "v \<le> 1"
  shows "fmt4 v = ''1.0000''"
proof -
  have abs: "\<bar>v\<bar> = v" and nonneg: "\<not> v < 0" using assms(1) by simp_all
  have "of_int 10000 - 1 / 2 \<le> v * 10000" "v * 10000 \<le> of_int 10000"
    using assms by simp_all
  then have "round_half_even (v * 10000) = 10000"
    by (rule round_half_even_above) simp
  then show ?thesis
    by (simp add: fmt4_def Let_def abs nonneg show_nat_small digit_char_def)
qed

lemma matches_pattern_digits:
  assumes "is_digit a" "is_digit b" "is_digit c" "is_digit d"
  shows "matches_pattern k (line_prefix k 5 @ ''0.'' @ [a, b, c, d])"
  using assms by (simp add: matches_pattern_def Let_def)

lemma not_matches_pattern_one: "\<not> matches_pattern k (line_prefix k 5 @ ''1.0000'')"
  by (simp add: matches_pattern_def Let_def)

lemma epoch_line_shape:
  assumes "0 \<le> v" and "v \<le> 1"
  shows "(v < 99995 / 100000 \<longrightarrow> matches_pattern k (epoch_line k 5 v))
         \<and> (99995 / 100000 \<le> v \<longrightarrow> epoch_line k 5 v = line_prefix k 5 @ ''1.0000'')"
proof (intro conjI impI)
  assume "v < 99995 / 100000"
  with assms(1) obtain a b c d where "is_digit a" "is_digit b" "is_digit c" "is_digit d"
    and "fmt4 v = ''0.'' @ [a, b, c, d]"
    using fmt4_below by blast
  then show "matches_pattern k (epoch_line k 5 v)"
    using matches_pattern_digits [of a b c d k] by (simp add: epoch_line_def)
next
  assume "99995 / 100000 \<le> v"
  with assms(2) show "epoch_line k 5 v = line_prefix k 5 @ ''1.0000''"
    by (simp add: epoch_line_def fmt4_top)
qed

lemma run_epochs_console:
  "\<exists>vs. length vs = length es
        \<and> (\<forall>v \<in> set vs. \<exists>w. v = mean_iou ext
               (map (\<lambda>b. (logits_argmax ext w False b, batch_labels ext b))
                  (map (load_val ext) (iter_batches v_loader [])))
               (num_labels ext) 255 False)
        \<and> console (run_epochs ext t_loader v_loader perms s es)
            = console s @ map (\<lambda>(e, v). epoch_line (e + 1) num_epochs v) (zip es vs)"
proof (induction es arbitrary: s)
  case Nil
  then show ?case by simp
next
  case (Cons e es)
  let ?s = "epoch_body ext t_loader v_loader (perms e) s e"
  let ?val = "\<lambda>w. mean_iou ext
               (map (\<lambda>b. (logits_argmax ext w False b, batch_labels ext b))
                  (map (load_val ext) (iter_batches v_loader [])))
               (num_labels ext) 255 False"
  from Cons.IH [of ?s] obtain vs where vs: "length vs = length es"
    "\<forall>v \<in> set vs. \<exists>w. v = ?val w"
    "console (run_epochs ext t_loader v_loader perms ?s es)
       = console ?s @ map (\<lambda>(e, v). epoch_line (e + 1) num_epochs v) (zip es vs)"
    by blast
  obtain v where v: "\<exists>w. v = ?val w"
    "console ?s = console s @ [epoch_line (e + 1) num_epochs v]"
    using epoch_body_console [of ext t_loader v_loader "perms e" s e] by blast
  show ?case
  proof (intro exI [of _ "v # vs"] conjI)
    show "length (v # vs) = length (e # es)" using vs(1) by simp
    show "\<forall>x \<in> set (v # vs). \<exists>w. x = ?val w"
      using vs(2) v(1) by simp
    show "console (run_epochs ext t_loader v_loader perms s (e # es))
            = console s @ map (\<lambda>(e, v). epoch_line (e + 1) num_epochs v) (zip (e # es) (v # vs))"
      using vs(3) v(2) by simp
  qed
qed


lemma run_console:
  fixes ext :: "('w, 'g, 'o, 'b, 'p, 'l) collaborators"
  shows "\<exists>v1 v2 v3 v4 v5.
      (\<forall>v \<in> {v1, v2, v3, v4, v5}. \<exists>w. v = mean_iou ext
               (map (\<lambda>b. (logits_argmax ext w False b, batch_labels ext b))
                  (map (load_val ext) (iter_batches v_loader [])))
               (num_labels ext) 255 False)
      \<and> console (run ext t_loader v_loader perms w0 o0)
          = [epoch_line 1 5 v1, epoch_line 2 5 v2, epoch_line 3 5 v3, epoch_line 4 5 v4,
             epoch_line 5 5 v5]"
proof -
  let ?val = "\<lambda>w. mean_iou ext
               (map (\<lambda>b. (logits_argmax ext w False b, batch_labels ext b))
                  (map (load_val ext) (iter_batches v_loader [])))
               (num_labels ext) 255 False"
  have five: "[0..<num_epochs] = [0, 1, 2, 3, 4]"
    by (simp add: num_epochs_def upt_conv_Cons)
  from run_epochs_console [of "[0..<num_epochs]" ext v_loader t_loader perms
         "initial_state t_loader w0 o0"]
  obtain vs where raw: "length vs = length [0..<num_epochs]"
    "\<forall>v \<in> set vs. \<exists>w. v = ?val w"
    "console (run_epochs ext t_loader v_loader perms (initial_state t_loader w0 o0) [0..<num_epochs])
       = console (initial_state t_loader w0 o0 :: ('w, 'g, 'o, 'p, 'l) run_state)
           @ map (\<lambda>(e, v). epoch_line (e + 1) num_epochs v) (zip [0..<num_epochs] vs)"
    by blast
  have vs: "length vs = 5"
    "console (run ext t_loader v_loader perms w0 o0)
       = map (\<lambda>(e, v). epoch_line (e + 1) num_epochs v) (zip [0, 1, 2, 3, 4] vs)"
    using raw(1,3) by (simp_all only: run_def five initial_state_fields(6) append_Nil length_Cons
                    list.size(3))
  from vs(1) obtain v1 v2 v3 v4 v5 where "vs = [v1, v2, v3, v4, v5]"
    by (auto simp: length_Suc_conv eval_nat_numeral)
  with raw(2) vs(2) have
    "(\<forall>v \<in> {v1, v2, v3, v4, v5}. \<exists>w. v = ?val w)
      \<and> console (run ext t_loader v_loader perms w0 o0)
          = [epoch_line 1 5 v1, epoch_line 2 5 v2, epoch_line 3 5 v3, epoch_line 4 5 v4,
             epoch_line 5 5 v5]"
    by (simp add: num_epochs_def numeral_2_eq_2 [symmetric])
  then show ?thesis by blast
qed


lemma printed_line_ok_iff: "printed_line_ok k v \<longleftrightarrow> 0 \<le> v \<and> v \<le> 1"
  using epoch_line_shape [of v k] by (auto simp: printed_line_ok_def)


lemma demo_ext_fields:
  "mean_iou (demo_ext v) (map (\<lambda>b. (logits_argmax (demo_ext v) w m b, batch_labels (demo_ext v) b)) bs)
     n i r = v"
  "num_labels (demo_ext v) = 150"
  by (simp_all add: demo_ext_def list_all_iff)


lemma demo_ext_range:
  "0 \<le> v \<Longrightarrow> v \<le> 1 \<Longrightarrow>
   0 \<le> mean_iou (demo_ext v) acc n i r \<and> mean_iou (demo_ext v) acc n i r \<le> 1"
  by (simp add: demo_ext_def)


text \<open>
  Claim C7, as stated: every printed line matches \<open>Epoch k/5 \<dots> mIoU: 0.XXXX\<close>
  whenever the metric values lie in \<open>[0, 1]\<close>. It fails at the value 1: with a model
  that predicts every label right and a metric that is then 1, the first line of the run
  ends in \<open>1.0000\<close> and does not match the pattern.
\<close>


theorem pattern_fails_at_one:
  "hd (console (run (demo_ext 1) (train_loader demo_processor (ds (sized_dataset 100)))
                  (val_loader demo_processor (ds (sized_dataset 50))) demo_perms 0 0))
     = line_prefix 1 5 @ ''1.0000''
   \<and> \<not> matches_pattern 1
         (hd (console (run (demo_ext 1) (train_loader demo_processor (ds (sized_dataset 100)))
                         (val_loader demo_processor (ds (sized_dataset 50))) demo_perms 0 0)))"
proof -
  let ?r = "run (demo_ext 1) (train_loader demo_processor (ds (sized_dataset 100)))
              (val_loader demo_processor (ds (sized_dataset 50))) demo_perms 0 0"
  from run_console [of "demo_ext 1" "val_loader demo_processor (ds (sized_dataset 50))"
         "train_loader demo_processor (ds (sized_dataset 100))" demo_perms 0 0]
  obtain v1 v2 v3 v4 v5 where
    r: "\<forall>v \<in> {v1, v2, v3, v4, v5}. \<exists>w. v = mean_iou (demo_ext 1)
               (map (\<lambda>b. (logits_argmax (demo_ext 1) w False b, batch_labels (demo_ext 1) b))
                  (map (load_val (demo_ext 1))
                     (iter_batches (val_loader demo_processor (ds (sized_dataset 50))) [])))
               (num_labels (demo_ext 1)) 255 False"
    and c: "console ?r = [epoch_line 1 5 v1, epoch_line 2 5 v2, epoch_line 3 5 v3,
                          epoch_line 4 5 v4, epoch_line 5 5 v5]"
    by (elim exE conjE)
  from r have v: "v1 = 1"
    by (simp only: demo_ext_fields(1) simp_thms ball_simps insert_iff)
  have "epoch_line 1 5 1 = line_prefix 1 5 @ ''1.0000''"
    using epoch_line_shape [of 1 1] by simp
  with v c have "hd (console ?r) = line_prefix 1 5 @ ''1.0000''" by simp
  then show ?thesis
    by (simp only: not_matches_pattern_one simp_thms)
qed


lemma fmt4_half: "fmt4 (1 / 2) = ''0.5000''"
  by (simp add: fmt4_def Let_def round_half_even_def show_nat_small digit_char_def)


lemma line_prefix_1_5: "line_prefix 1 5 = ''Epoch 1/5 '' @ em_dash @ '' mIoU: ''"
  by (simp add: line_prefix_def show_nat_small)

section \<open>The metric's range and the epochs of a run\<close>

lemma length_filter_mono:
  "(\<And>x. x \<in> set xs \<Longrightarrow> P x \<Longrightarrow> Q x) \<Longrightarrow> length (filter P xs) \<le> length (filter Q xs)"
  by (induction xs) auto

lemma area_intersect_le_union: "area_intersect c px \<le> area_union c px"
  unfolding area_intersect_def area_union_def by (rule length_filter_mono) auto

lemma class_ratio_range:
  "0 \<le> (of_nat (area_intersect c px) / of_nat (area_union c px) :: rat)"
  "(of_nat (area_intersect c px) / of_nat (area_union c px) :: rat) \<le> 1"
proof -
  show "0 \<le> (of_nat (area_intersect c px) / of_nat (area_union c px) :: rat)"
    by simp
  show "(of_nat (area_intersect c px) / of_nat (area_union c px) :: rat) \<le> 1"
  proof (cases "area_union c px = 0")
    case True
    then show ?thesis by simp
  next
    case False
    then have "(0::rat) < of_nat (area_union c px)" by simp
    moreover have "(of_nat (area_intersect c px) :: rat) \<le> of_nat (area_union c px)"
      using area_intersect_le_union [of c px] by (simp only: of_nat_le_iff)
    ultimately show ?thesis by (simp add: divide_le_eq)
  qed
qed

lemma mean_range:
  fixes xs :: "rat list"
  assumes "xs \<noteq> []" and "\<forall>x \<in> set xs. 0 \<le> x \<and> x \<le> 1"
  shows "0 \<le> sum_list xs / of_nat (length xs)" and "sum_list xs / of_nat (length xs) \<le> 1"
proof -
  have lo: "0 \<le> sum_list xs"
    using assms(2) by (simp add: sum_list_nonneg)
  have hi: "sum_list xs \<le> of_nat (length xs)"
    using assms(2) by (induction xs) (auto simp: add.commute add_mono)
  have pos: "(0::rat) < of_nat (length xs)"
    using assms(1) by simp
  from lo pos show "0 \<le> sum_list xs / of_nat (length xs)" by simp
  from hi pos show "sum_list xs / of_nat (length xs) \<le> 1" by (simp add: divide_le_eq)
qed

lemma mean_iou_spec_range:
  assumes "mean_iou_spec acc n ignore_index = Some v"
  shows "0 \<le> v \<and> v \<le> 1"
proof -
  let ?px = "labelled_pixels acc ignore_index"
  let ?present = "filter (\<lambda>c. 0 < area_union c ?px) [0..<n]"
  let ?ratios = "map (\<lambda>c. of_nat (area_intersect c ?px) / of_nat (area_union c ?px) :: rat) ?present"
  from assms have ne: "?present \<noteq> []" and v: "v = sum_list ?ratios / of_nat (length ?present)"
    by (auto simp: mean_iou_spec_def Let_def split: if_splits)
  have "?ratios \<noteq> []" using ne by simp
  moreover have "\<forall>x \<in> set ?ratios. 0 \<le> x \<and> x \<le> 1"
    using class_ratio_range by auto
  ultimately have "0 \<le> sum_list ?ratios / of_nat (length ?ratios)"
    and "sum_list ?ratios / of_nat (length ?ratios) \<le> 1"
    by (rule mean_range)+
  with v show ?thesis by simp
qed

lemma mean_iou_spec_defined:
  assumes "c < n" and "(c, c) \<in> set (labelled_pixels acc ignore_index)"
  shows "\<exists>v. mean_iou_spec acc n ignore_index = Some v"
proof -
  let ?px = "labelled_pixels acc ignore_index"
  have "filter (\<lambda>(p, l). p = c \<or> l = c) ?px \<noteq> []"
    using assms(2) by (auto simp: filter_empty_conv)
  then have "0 < area_union c ?px"
    by (simp add: area_union_def)
  with assms(1) have "c \<in> set (filter (\<lambda>c. 0 < area_union c ?px) [0..<n])"
    by simp
  then have "filter (\<lambda>c. 0 < area_union c ?px) [0..<n] \<noteq> []"
    by (metis empty_iff list.set(1))
  then show ?thesis
    by (simp add: mean_iou_spec_def Let_def)
qed

lemma run_epochs_append:
  "run_epochs ext t_loader v_loader perms s (es @ es')
     = run_epochs ext t_loader v_loader perms (run_epochs ext t_loader v_loader perms s es) es'"
  by (induction es arbitrary: s) simp_all

lemma state_after_epochs_0:
  "state_after_epochs ext t_loader v_loader perms w0 o0 0 = initial_state t_loader w0 o0"
  by (simp add: state_after_epochs_def)

lemma state_after_epochs_Suc:
  "state_after_epochs ext t_loader v_loader perms w0 o0 (Suc k)
     = epoch_body ext t_loader v_loader (perms k)
         (state_after_epochs ext t_loader v_loader perms w0 o0 k) k"
  by (simp add: state_after_epochs_def run_epochs_append)

lemma run_is_state_after_5:
  "run ext t_loader v_loader perms w0 o0 = state_after_epochs ext t_loader v_loader perms w0 o0 5"
  by (simp add: run_def state_after_epochs_def num_epochs_def)

lemma epoch_body_saved: "saved (epoch_body ext t_loader v_loader perm s epoch) = saved s"
  by (simp add: epoch_body_unfold validation_pass_fields train_loop_fields)

lemma state_after_epochs_saved:
  "saved (state_after_epochs ext t_loader v_loader perms w0 o0 k) = []"
  by (induction k) (simp_all add: state_after_epochs_0 state_after_epochs_Suc epoch_body_saved
                      initial_state_fields)

lemma state_after_epochs_metric_acc:
  "metric_acc (state_after_epochs ext t_loader v_loader perms w0 o0 (Suc k))
     = val_pairs ext v_loader (weights (state_after_epochs ext t_loader v_loader perms w0 o0 (Suc k)))"
  unfolding state_after_epochs_Suc val_pairs_def by (rule epoch_body_metric_acc)

lemma state_after_epochs_console:
  "console (state_after_epochs ext t_loader v_loader perms w0 o0 (Suc k))
     = console (state_after_epochs ext t_loader v_loader perms w0 o0 k)
         @ [epoch_line (Suc k) num_epochs (epoch_metric ext t_loader v_loader perms w0 o0 (Suc k))]"
proof -
  let ?s = "state_after_epochs ext t_loader v_loader perms w0 o0 k"
  let ?s' = "epoch_body ext t_loader v_loader (perms k) ?s k"
  have "console ?s' = console ?s @ [epoch_line (k + 1) num_epochs
          (mean_iou ext (metric_acc ?s') (num_labels ext) 255 False)]"
    by (simp only: epoch_body_metric_acc [of ext t_loader v_loader "perms k" ?s k]
          epoch_body_console [of ext t_loader v_loader "perms k" ?s k])
  then show ?thesis
    by (simp add: state_after_epochs_Suc epoch_metric_def)
qed

lemma run_console_lines:
  "console (run ext t_loader v_loader perms w0 o0)
     = [epoch_line 1 5 (epoch_metric ext t_loader v_loader perms w0 o0 1),
        epoch_line 2 5 (epoch_metric ext t_loader v_loader perms w0 o0 2),
        epoch_line 3 5 (epoch_metric ext t_loader v_loader perms w0 o0 3),
        epoch_line 4 5 (epoch_metric ext t_loader v_loader perms w0 o0 4),
        epoch_line 5 5 (epoch_metric ext t_loader v_loader perms w0 o0 5)]"
proof -
  let ?S = "state_after_epochs ext t_loader v_loader perms w0 o0"
  let ?L = "\<lambda>k. epoch_line k 5 (epoch_metric ext t_loader v_loader perms w0 o0 k)"
  have e1: "console (?S 1) = [?L 1]"
    using state_after_epochs_console [of ext t_loader v_loader perms w0 o0 0]
    by (simp add: state_after_epochs_0 initial_state_fields num_epochs_def)
  have e2: "console (?S 2) = console (?S 1) @ [?L 2]"
    using state_after_epochs_console [of ext t_loader v_loader perms w0 o0 1]
    by (simp add: num_epochs_def numeral_2_eq_2 [symmetric])
  have e3: "console (?S 3) = console (?S 2) @ [?L 3]"
    using state_after_epochs_console [of ext t_loader v_loader perms w0 o0 2]
    by (simp add: num_epochs_def)
  have e4: "console (?S 4) = console (?S 3) @ [?L 4]"
    using state_after_epochs_console [of ext t_loader v_loader perms w0 o0 3]
    by (simp add: num_epochs_def)
  have e5: "console (?S 5) = console (?S 4) @ [?L 5]"
    using state_after_epochs_console [of ext t_loader v_loader perms w0 o0 4]
    by (simp add: num_epochs_def)
  show ?thesis
    unfolding run_is_state_after_5 e5 e4 e3 e2 e1 by simp
qed

lemma val_batches_of_loader:
  "iter_batches (val_loader proc xs) perm = chunks 2 [0..<length xs]"
  by (simp add: iter_batches_def index_order_def val_loader_fields)

lemma train_batches_of_loader:
  "iter_batches (train_loader proc xs) perm = chunks 4 perm"
  by (simp add: iter_batches_def index_order_def train_loader_fields)

lemma run_metric_acc:
  "metric_acc (run ext t_loader v_loader perms w0 o0)
     = val_pairs ext v_loader (weights (run ext t_loader v_loader perms w0 o0))"
proof -
  have "(5::nat) = Suc 4" by simp
  then show ?thesis
    unfolding run_is_state_after_5 by (simp only: state_after_epochs_metric_acc)
qed

lemma run_saved: "saved (run ext t_loader v_loader perms w0 o0) = []"
  unfolding run_is_state_after_5 by (rule state_after_epochs_saved)

section \<open>The configuration the driver runs with\<close>

text \<open>
  Claim C6: the driver runs with a fixed configuration. On partitions with at least 100
  and 50 samples it runs on the first 100 samples of the shuffle of the train partition
  with seed 42 and on the first 50 samples of the validation partition, with a shuffling
  training loader of batch size 4 and a validation loader of batch size 2 in original
  order. The run it returns went through 5 epochs (5 lines printed) of 25 training
  batches each (125 backward passes and optimizer steps), an epoch training on the chunks
  of 4 of the order drawn for it; the rates its optimizer steps used are the linear decay
  from the peak 5e-5 over the 125 steps with no warm-up; and its last validation pass
  went through the 50 validation indices in order, in batches of 2.
\<close>

theorem driver_configuration:
  fixes ext :: "('w, 'g, 'o, 'b, 'p, 'l) collaborators"
    and proc :: "'pil \<Rightarrow> 'pil \<Rightarrow> (string \<rightharpoonup> 'a tensor)"
    and w_init :: 'w and o_init :: 'o
  assumes "100 \<le> length (hf_shuffle 42 (train d))" and "50 \<le> length (validation d)"
    and "\<forall>e. length (perms e) = 100"
  defines "train_ds \<equiv> take 100 (hf_shuffle 42 (train d))"
  defines "val_ds \<equiv> take 50 (validation d)"
  defines "r \<equiv> run ext (train_loader proc train_ds) (val_loader proc val_ds) perms w_init o_init"
  shows "driver ext hf_shuffle proc d perms w_init o_init = Inr r
         \<and> length train_ds = 100 \<and> length val_ds = 50
         \<and> ds (dataset (train_loader proc train_ds)) = train_ds
         \<and> batch_size (train_loader proc train_ds) = 4
         \<and> shuffle (train_loader proc train_ds)
         \<and> ds (dataset (val_loader proc val_ds)) = val_ds
         \<and> batch_size (val_loader proc val_ds) = 2
         \<and> \<not> shuffle (val_loader proc val_ds)
         \<and> num_epochs = 5
         \<and> length (console r) = 5
         \<and> length (backward_seen r) = 5 * 25
         \<and> sched r = \<lparr>base_lr = 5 / 100000, num_warmup_steps = 0,
                       num_training_steps = 5 * 25, last_epoch = 5 * 25\<rparr>
         \<and> lr_used r = map (\<lambda>k. 5 / 100000 * (of_nat (125 - k) / 125)) [0..<125]
         \<and> metric_acc r
             = map (\<lambda>b. (logits_argmax ext (weights r) False b, batch_labels ext b))
                 (map (load_val ext) (chunks 2 [0..<50]))
         \<and> (\<forall>e st. weights (epoch_body ext (train_loader proc train_ds) (val_loader proc val_ds)
                                (perms e) st e)
                      = weights (train_loop ext (st\<lparr>training := True\<rparr>)
                                   (map (load_train ext) (chunks 4 (perms e)))))"
proof -
  have len: "length train_ds = 100" "length val_ds = 50"
    using assms(1,2) by (simp_all add: train_ds_def val_ds_def)
  have drv: "driver ext hf_shuffle proc d perms w_init o_init = Inr r"
    using assms(1,2) by (simp add: driver_def prepare_data_ok train_ds_def val_ds_def r_def)
  have lines: "length (console r) = 5"
    unfolding r_def by (simp add: run_console_lines)
  have bw: "length (backward_seen r) = 5 * 25"
    unfolding r_def by (simp add: run_effect(2) driver_steps [OF assms(3)])
  have sc: "sched r = \<lparr>base_lr = 5 / 100000, num_warmup_steps = 0,
                       num_training_steps = 5 * 25, last_epoch = 5 * 25\<rparr>"
    unfolding r_def by (simp add: driver_run_schedule(2) [OF len(1) assms(3)])
  have used: "lr_used r = map (\<lambda>k. 5 / 100000 * (of_nat (125 - k) / 125)) [0..<125]"
    unfolding r_def by (rule driver_run_schedule(1) [OF len(1) assms(3)])
  have acc: "metric_acc r
             = map (\<lambda>b. (logits_argmax ext (weights r) False b, batch_labels ext b))
                 (map (load_val ext) (chunks 2 [0..<50]))"
    unfolding r_def by (simp add: run_metric_acc val_pairs_def val_batches_of_loader len(2))
  have ep: "\<forall>e st. weights (epoch_body ext (train_loader proc train_ds) (val_loader proc val_ds)
                                (perms e) st e)
                      = weights (train_loop ext (st\<lparr>training := True\<rparr>)
                                   (map (load_train ext) (chunks 4 (perms e))))"
    by (simp add: epoch_body_fields(1) train_batches_of_loader)
  from drv len lines bw sc used acc ep show ?thesis
    by (simp add: train_loader_fields val_loader_fields num_epochs_def)
qed

theorem driver_configuration_witness:
  "100 \<le> length (demo_shuffle 42 (train demo_dict)) \<and> 50 \<le> length (validation demo_dict)
   \<and> (\<forall>e. length (demo_perms e) = 100)
   \<and> driver (demo_ext 0) demo_shuffle demo_processor demo_dict demo_perms 0 0
       = Inr (run (demo_ext 0)
                (train_loader demo_processor (take 100 (demo_shuffle 42 (train demo_dict))))
                (val_loader demo_processor (take 50 (validation demo_dict)))
                demo_perms 0 0)
   \<and> length (take 100 (demo_shuffle 42 (train demo_dict))) = 100
   \<and> length (take 50 (validation demo_dict)) = 50
   \<and> length (console (run (demo_ext 0)
                (train_loader demo_processor (take 100 (demo_shuffle 42 (train demo_dict))))
                (val_loader demo_processor (take 50 (validation demo_dict)))
                demo_perms 0 0)) = 5"
proof -
  have big: "100 \<le> length (demo_shuffle 42 (train demo_dict))"
    "50 \<le> length (validation demo_dict)"
    by (simp_all add: demo_dict_lengths)
  note t = driver_configuration [where hf_shuffle = demo_shuffle and d = demo_dict
      and ext = "demo_ext 0" and proc = demo_processor and perms = demo_perms
      and w_init = 0 and o_init = 0, OF big demo_perms_length]
  note c = t [THEN conjunct2, THEN conjunct2, THEN conjunct2, THEN conjunct2, THEN conjunct2,
              THEN conjunct2, THEN conjunct2, THEN conjunct2, THEN conjunct2, THEN conjunct2,
              THEN conjunct1]
  from big demo_perms_length t [THEN conjunct1] t [THEN conjunct2, THEN conjunct1]
    t [THEN conjunct2, THEN conjunct2, THEN conjunct1] c
  show ?thesis by (intro conjI)
qed


section \<open>What a run leaves to an observer\<close>

lemma epoch_metric_range:
  fixes ext :: "('w, 'g, 'o, 'b, nat list, nat list) collaborators"
  assumes "\<forall>w. mean_iou_spec (val_pairs ext v_loader w) (num_labels ext) 255
                 = Some (mean_iou ext (val_pairs ext v_loader w) (num_labels ext) 255 False)"
  shows "0 \<le> epoch_metric ext t_loader v_loader perms w0 o0 (Suc k)
         \<and> epoch_metric ext t_loader v_loader perms w0 o0 (Suc k) \<le> 1"
proof -
  let ?w = "weights (state_after_epochs ext t_loader v_loader perms w0 o0 (Suc k))"
  have "epoch_metric ext t_loader v_loader perms w0 o0 (Suc k)
          = mean_iou ext (val_pairs ext v_loader ?w) (num_labels ext) 255 False"
    by (simp only: epoch_metric_def state_after_epochs_metric_acc)
  moreover from assms have "mean_iou_spec (val_pairs ext v_loader ?w) (num_labels ext) 255
          = Some (mean_iou ext (val_pairs ext v_loader ?w) (num_labels ext) 255 False)"
    by (rule spec)
  ultimately show ?thesis
    using mean_iou_spec_range by metis
qed

text \<open>
  Claim C7, amended: a complete run prints exactly 5 console lines, one per epoch in
  order, line \<open>k\<close> being \<open>Epoch k/5 \<dots> mIoU: \<close> followed by the mIoU computed at the
  end of epoch \<open>k\<close>, formatted to 4 decimal places, which matches the pattern \<open>0.XXXX\<close>,
  or reads \<open>1.0000\<close> when the value is 0.99995 or more, for k = 1..5; each printed mIoU
  value lies in \<open>[0, 1]\<close> (the values need not be monotonic); there is no other
  externally observable output and no persisted artifact. The run is complete when the
  metric, the mean IoU the spec describes, has a value at the end of every epoch.
\<close>

theorem console_five_lines:
  fixes ext :: "('w, 'g, 'o, 'b, nat list, nat list) collaborators"
  assumes "\<forall>w. mean_iou_spec (val_pairs ext v_loader w) (num_labels ext) 255
                 = Some (mean_iou ext (val_pairs ext v_loader w) (num_labels ext) 255 False)"
  shows "console (run ext t_loader v_loader perms w_init o_init)
           = [epoch_line 1 5 (epoch_metric ext t_loader v_loader perms w_init o_init 1),
              epoch_line 2 5 (epoch_metric ext t_loader v_loader perms w_init o_init 2),
              epoch_line 3 5 (epoch_metric ext t_loader v_loader perms w_init o_init 3),
              epoch_line 4 5 (epoch_metric ext t_loader v_loader perms w_init o_init 4),
              epoch_line 5 5 (epoch_metric ext t_loader v_loader perms w_init o_init 5)]
         \<and> printed_line_ok 1 (epoch_metric ext t_loader v_loader perms w_init o_init 1)
         \<and> printed_line_ok 2 (epoch_metric ext t_loader v_loader perms w_init o_init 2)
         \<and> printed_line_ok 3 (epoch_metric ext t_loader v_loader perms w_init o_init 3)
         \<and> printed_line_ok 4 (epoch_metric ext t_loader v_loader perms w_init o_init 4)
         \<and> printed_line_ok 5 (epoch_metric ext t_loader v_loader perms w_init o_init 5)
         \<and> saved (run ext t_loader v_loader perms w_init o_init) = []"
proof -
  note rng = epoch_metric_range [OF assms, of t_loader perms w_init o_init]
  have ok: "printed_line_ok j (epoch_metric ext t_loader v_loader perms w_init o_init (Suc k))"
    for j k
    using rng [of k] by (simp only: printed_line_ok_iff)
  have "printed_line_ok 1 (epoch_metric ext t_loader v_loader perms w_init o_init 1)"
    "printed_line_ok 2 (epoch_metric ext t_loader v_loader perms w_init o_init 2)"
    "printed_line_ok 3 (epoch_metric ext t_loader v_loader perms w_init o_init 3)"
    "printed_line_ok 4 (epoch_metric ext t_loader v_loader perms w_init o_init 4)"
    "printed_line_ok 5 (epoch_metric ext t_loader v_loader perms w_init o_init 5)"
    using ok [of 1 0] ok [of 2 1] ok [of 3 2] ok [of 4 3] ok [of 5 4]
    by (simp_all add: numeral_2_eq_2 [symmetric])
  then show ?thesis
    by (simp only: run_console_lines run_saved simp_thms)
qed

lemma perfect_pixels:
  "concat (map (\<lambda>(preds, labels). zip preds labels) (map (\<lambda>b. (b, b)) bs))
     = map (\<lambda>i. (i, i)) (concat bs)"
  by (induction bs) (simp_all add: zip_same_conv_map)

lemma spec_ext_val_pairs:
  "val_pairs spec_ext v_loader w = map (\<lambda>b. (b, b)) (iter_batches v_loader [])"
  by (simp add: val_pairs_def spec_ext_def o_def)

lemma spec_ext_metric_defined:
  "mean_iou_spec (val_pairs spec_ext (val_loader demo_processor (ds (sized_dataset 50))) w)
      (num_labels spec_ext) 255
     = Some (mean_iou spec_ext
               (val_pairs spec_ext (val_loader demo_processor (ds (sized_dataset 50))) w)
               (num_labels spec_ext) 255 False)"
proof -
  let ?acc = "val_pairs spec_ext (val_loader demo_processor (ds (sized_dataset 50))) w"
  have cc: "concat (chunks 2 [0..<50]) = [0..<50]"
    by (rule concat_chunks) simp
  have "concat (map (\<lambda>(preds, labels). zip preds labels) ?acc) = map (\<lambda>i. (i, i)) [0..<50]"
    by (simp only: spec_ext_val_pairs val_batches_of_loader sized_dataset_length
          perfect_pixels cc)
  then have "labelled_pixels ?acc 255 = filter (\<lambda>(p, l). l \<noteq> 255) (map (\<lambda>i. (i, i)) [0..<50])"
    by (simp only: labelled_pixels_def)
  then have "(0, 0) \<in> set (labelled_pixels ?acc 255)"
    by simp
  then obtain v where v: "mean_iou_spec ?acc 150 255 = Some v"
    using mean_iou_spec_defined [of 0 150 ?acc 255] by auto
  have n: "num_labels spec_ext = 150"
    by (simp add: spec_ext_def)
  have "mean_iou spec_ext ?acc 150 255 False = v"
    using v by (simp add: spec_ext_def)
  with v n show ?thesis by simp
qed

theorem console_five_lines_witness:
  "(\<forall>w. mean_iou_spec (val_pairs spec_ext (val_loader demo_processor (ds (sized_dataset 50))) w)
           (num_labels spec_ext) 255
         = Some (mean_iou spec_ext
                   (val_pairs spec_ext (val_loader demo_processor (ds (sized_dataset 50))) w)
                   (num_labels spec_ext) 255 False))
   \<and> length (console (run spec_ext (train_loader demo_processor (ds (sized_dataset 100)))
                         (val_loader demo_processor (ds (sized_dataset 50))) demo_perms 0 0)) = 5
   \<and> printed_line_ok 1
        (epoch_metric spec_ext (train_loader demo_processor (ds (sized_dataset 100)))
           (val_loader demo_processor (ds (sized_dataset 50))) demo_perms 0 0 1)
   \<and> saved (run spec_ext (train_loader demo_processor (ds (sized_dataset 100)))
               (val_loader demo_processor (ds (sized_dataset 50))) demo_perms 0 0) = []"
proof -
  have h: "\<forall>w. mean_iou_spec
                 (val_pairs spec_ext (val_loader demo_processor (ds (sized_dataset 50))) w)
                 (num_labels spec_ext) 255
         = Some (mean_iou spec_ext
                   (val_pairs spec_ext (val_loader demo_processor (ds (sized_dataset 50))) w)
                   (num_labels spec_ext) 255 False)"
    using spec_ext_metric_defined by blast
  note t = console_five_lines [OF h, of "train_loader demo_processor (ds (sized_dataset 100))"
             demo_perms 0 0]
  from t [THEN conjunct1]
  have five: "length (console (run spec_ext (train_loader demo_processor (ds (sized_dataset 100)))
                         (val_loader demo_processor (ds (sized_dataset 50))) demo_perms 0 0)) = 5"
    by simp
  from h five t [THEN conjunct2, THEN conjunct1]
    t [THEN conjunct2, THEN conjunct2, THEN conjunct2, THEN conjunct2, THEN conjunct2,
       THEN conjunct2]
  show ?thesis by (intro conjI)
qed

end
